theory Spec2Isabelle
  imports Main
begin

section \<open>Data model\<close>

text \<open>
  The layout dispatcher of \<^verbatim>\<open>Source/Core/LayoutEngine.cpp\<close> walks a styled element
  tree and drives the formatting contexts (\<^verbatim>\<open>LayoutBlockBox\<close>), the box metrics
  (\<^verbatim>\<open>LayoutDetails\<close>) and the table formatter (\<^verbatim>\<open>LayoutTable\<close>). The dispatcher is
  embedded here function by function. The classes it calls are not part of the sources at
  hand; they enter as a record of operations on a context state of arbitrary type.
\<close>

text \<open>\<^verbatim>\<open>Style::Display\<close>, with the values the switch of \<^verbatim>\<open>FormatElement\<close> lists.\<close>

datatype Display =
    Display_None
  | Display_Block
  | Display_Inline
  | Display_InlineBlock
  | Display_Table
  | Display_TableRow
  | Display_TableRowGroup
  | Display_TableColumn
  | Display_TableColumnGroup
  | Display_TableCell

datatype Position = Position_Static | Position_Relative | Position_Absolute | Position_Fixed

datatype Float = Float_None | Float_Left | Float_Right

text \<open>\<^verbatim>\<open>LayoutBlockBox::CloseResult\<close>.\<close>

datatype CloseResult = OK | LAYOUT_SELF | LAYOUT_PARENT

text \<open>
  An element as the dispatcher reads it: its identity (the pointer), \<^verbatim>\<open>GetTagName()\<close>,
  \<^verbatim>\<open>GetAddress()\<close>, the computed \<^verbatim>\<open>display\<close>, \<^verbatim>\<open>position\<close> and \<^verbatim>\<open>float_\<close> (here \<open>float_property\<close>), the string
  of the declared display property (\<^verbatim>\<open>GetProperty(PropertyId::Display)\<close>, which may be
  null), and the children in order (\<^verbatim>\<open>GetNumChildren()\<close>, \<^verbatim>\<open>GetChild(i)\<close>).
\<close>

datatype element =
  Element (ident: nat) (tag_name: string) (address: string)
    (display: Display) (position: Position) (float_property: Float)
    (display_property: "string option") (children: "element list")

text \<open>Pointers to \<^verbatim>\<open>LayoutBlockBox\<close> and \<^verbatim>\<open>LayoutInlineBox\<close> objects are addresses.\<close>

type_synonym block_box = nat
type_synonym inline_box = nat

text \<open>\<^verbatim>\<open>Vector2f\<close> over an abstract type of floats.\<close>

record 'h Vector2f =
  x :: 'h
  y :: 'h

text \<open>
  Every call that leaves the dispatcher and changes something is recorded, in order, so
  that what a function did can be read off the state.
\<close>

datatype event =
    Ev_NewBlockBox block_box
  | Ev_AddBlockElement block_box element
  | Ev_Close block_box
  | Ev_CloseAbsoluteElements block_box
  | Ev_AddAbsoluteElement block_box element
  | Ev_AddFloatElement block_box element
  | Ev_AddInlineElement block_box element
  | Ev_InlineClose inline_box
  | Ev_AddBreak block_box
  | Ev_FormatTable block_box element
  | Ev_OnLayout element
  | Ev_LogWarning string string

text \<open>
  The operations of the classes the dispatcher calls, over a context state \<open>'s\<close>, boxes
  \<open>'x\<close> and floats \<open>'h\<close>. A mutating operation returns the new context state; a query
  only reads it. \<open>BuildBox\<close> and \<open>BuildBoxIn\<close> are the two overloads of
  \<^verbatim>\<open>LayoutDetails::BuildBox\<close> (from a containing block, and from a block box with the
  minimum and maximum height), \<open>NewBlockBox\<close> is the constructor of the root's
  \<^verbatim>\<open>containing_block_box\<close>, \<open>InlineClose\<close> is \<^verbatim>\<open>LayoutInlineBox::Close\<close>, \<open>OnLayout\<close> and
  \<open>GetBox\<close> are the element's. \<^verbatim>\<open>AddBlockElement\<close> may return null (\<open>None\<close>);
  \<^verbatim>\<open>AddInlineElement\<close> is used unchecked wherever it is called and is taken to return a
  valid pointer.
\<close>

record ('s, 'x, 'h) collab =
  BuildBox :: "'h Vector2f \<Rightarrow> element \<Rightarrow> bool \<Rightarrow> 's \<Rightarrow> 'x"
  GetMinMaxHeight :: "element \<Rightarrow> 'x \<Rightarrow> 'h \<Rightarrow> 's \<Rightarrow> 'h \<times> 'h"
  BuildBoxIn :: "block_box \<Rightarrow> element \<Rightarrow> bool \<Rightarrow> 's \<Rightarrow> 'x \<times> 'h \<times> 'h"
  GetContainingBlock :: "block_box \<Rightarrow> 's \<Rightarrow> 'h Vector2f"
  NewBlockBox :: "'h Vector2f \<Rightarrow> 's \<Rightarrow> block_box \<times> 's"
  AddBlockElement :: "block_box \<Rightarrow> element \<Rightarrow> 'x \<Rightarrow> 'h \<Rightarrow> 'h \<Rightarrow> 's \<Rightarrow> block_box option \<times> 's"
  Close :: "block_box \<Rightarrow> 's \<Rightarrow> CloseResult \<times> 's"
  CloseAbsoluteElements :: "block_box \<Rightarrow> 's \<Rightarrow> 's"
  GetVisibleOverflowSize :: "block_box \<Rightarrow> 's \<Rightarrow> 'h Vector2f"
  AddAbsoluteElement :: "block_box \<Rightarrow> element \<Rightarrow> 's \<Rightarrow> 's"
  AddFloatElement :: "block_box \<Rightarrow> element \<Rightarrow> 's \<Rightarrow> bool \<times> 's"
  AddInlineElement :: "block_box \<Rightarrow> element \<Rightarrow> 'x \<Rightarrow> 's \<Rightarrow> inline_box \<times> 's"
  InlineClose :: "inline_box \<Rightarrow> 's \<Rightarrow> 's"
  AddBreak :: "block_box \<Rightarrow> 's \<Rightarrow> 's"
  FormatTable :: "block_box \<Rightarrow> element \<Rightarrow> 's \<Rightarrow> CloseResult \<times> 's"
  OnLayout :: "element \<Rightarrow> 's \<Rightarrow> 's"
  GetBox :: "element \<Rightarrow> 's \<Rightarrow> 'x"

text \<open>
  The state of a layout pass: the calls made so far, the caller's
  \<^verbatim>\<open>out_visible_overflow_size\<close> variable, and the context state.
\<close>

record ('s, 'h) layout_state =
  trace :: "event list"
  visible_overflow_size :: "'h Vector2f option"
  ctx :: "'s"

definition emit :: "event \<Rightarrow> ('s, 'h) layout_state \<Rightarrow> ('s, 'h) layout_state" where
  "emit ev s = s\<lparr>trace := trace s @ [ev]\<rparr>"

section \<open>Calls into the formatting contexts\<close>

definition new_block_box ::
  "('s, 'x, 'h) collab \<Rightarrow> 'h Vector2f \<Rightarrow> ('s, 'h) layout_state \<Rightarrow> block_box \<times> ('s, 'h) layout_state" where
  "new_block_box C cb s =
     (case NewBlockBox C cb (ctx s) of
        (b, c) \<Rightarrow> (b, emit (Ev_NewBlockBox b) (s\<lparr>ctx := c\<rparr>)))"

definition add_block_element ::
  "('s, 'x, 'h) collab \<Rightarrow> block_box \<Rightarrow> element \<Rightarrow> 'x \<Rightarrow> 'h \<Rightarrow> 'h \<Rightarrow> ('s, 'h) layout_state
     \<Rightarrow> block_box option \<times> ('s, 'h) layout_state" where
  "add_block_element C b e box min_height max_height s =
     (case AddBlockElement C b e box min_height max_height (ctx s) of
        (r, c) \<Rightarrow> (r, emit (Ev_AddBlockElement b e) (s\<lparr>ctx := c\<rparr>)))"

definition close_box ::
  "('s, 'x, 'h) collab \<Rightarrow> block_box \<Rightarrow> ('s, 'h) layout_state \<Rightarrow> CloseResult \<times> ('s, 'h) layout_state" where
  "close_box C b s =
     (case Close C b (ctx s) of (r, c) \<Rightarrow> (r, emit (Ev_Close b) (s\<lparr>ctx := c\<rparr>)))"

definition close_absolute_elements ::
  "('s, 'x, 'h) collab \<Rightarrow> block_box \<Rightarrow> ('s, 'h) layout_state \<Rightarrow> ('s, 'h) layout_state" where
  "close_absolute_elements C b s =
     emit (Ev_CloseAbsoluteElements b) (s\<lparr>ctx := CloseAbsoluteElements C b (ctx s)\<rparr>)"

definition add_absolute_element ::
  "('s, 'x, 'h) collab \<Rightarrow> block_box \<Rightarrow> element \<Rightarrow> ('s, 'h) layout_state \<Rightarrow> ('s, 'h) layout_state" where
  "add_absolute_element C b e s =
     emit (Ev_AddAbsoluteElement b e) (s\<lparr>ctx := AddAbsoluteElement C b e (ctx s)\<rparr>)"

definition add_float_element ::
  "('s, 'x, 'h) collab \<Rightarrow> block_box \<Rightarrow> element \<Rightarrow> ('s, 'h) layout_state \<Rightarrow> bool \<times> ('s, 'h) layout_state" where
  "add_float_element C b e s =
     (case AddFloatElement C b e (ctx s) of
        (r, c) \<Rightarrow> (r, emit (Ev_AddFloatElement b e) (s\<lparr>ctx := c\<rparr>)))"

definition add_inline_element ::
  "('s, 'x, 'h) collab \<Rightarrow> block_box \<Rightarrow> element \<Rightarrow> 'x \<Rightarrow> ('s, 'h) layout_state
     \<Rightarrow> inline_box \<times> ('s, 'h) layout_state" where
  "add_inline_element C b e box s =
     (case AddInlineElement C b e box (ctx s) of
        (i, c) \<Rightarrow> (i, emit (Ev_AddInlineElement b e) (s\<lparr>ctx := c\<rparr>)))"

definition inline_close ::
  "('s, 'x, 'h) collab \<Rightarrow> inline_box \<Rightarrow> ('s, 'h) layout_state \<Rightarrow> ('s, 'h) layout_state" where
  "inline_close C i s = emit (Ev_InlineClose i) (s\<lparr>ctx := InlineClose C i (ctx s)\<rparr>)"

definition add_break ::
  "('s, 'x, 'h) collab \<Rightarrow> block_box \<Rightarrow> ('s, 'h) layout_state \<Rightarrow> ('s, 'h) layout_state" where
  "add_break C b s = emit (Ev_AddBreak b) (s\<lparr>ctx := AddBreak C b (ctx s)\<rparr>)"

definition format_table ::
  "('s, 'x, 'h) collab \<Rightarrow> block_box \<Rightarrow> element \<Rightarrow> ('s, 'h) layout_state
     \<Rightarrow> CloseResult \<times> ('s, 'h) layout_state" where
  "format_table C b e s =
     (case FormatTable C b e (ctx s) of
        (r, c) \<Rightarrow> (r, emit (Ev_FormatTable b e) (s\<lparr>ctx := c\<rparr>)))"

definition on_layout ::
  "('s, 'x, 'h) collab \<Rightarrow> element \<Rightarrow> ('s, 'h) layout_state \<Rightarrow> ('s, 'h) layout_state" where
  "on_layout C e s = emit (Ev_OnLayout e) (s\<lparr>ctx := OnLayout C e (ctx s)\<rparr>)"

text \<open>\<^verbatim>\<open>Log::Message(Log::LT_WARNING, ...)\<close> with its two string arguments.\<close>

definition log_warning :: "string \<Rightarrow> string \<Rightarrow> ('s, 'h) layout_state \<Rightarrow> ('s, 'h) layout_state" where
  "log_warning display_string addr s = emit (Ev_LogWarning display_string addr) s"

section \<open>The dispatcher\<close>

text \<open>
  A function of the dispatcher either returns, or dereferences a null
  \<^verbatim>\<open>LayoutBlockBox\<close> pointer (the root overload does not test what \<^verbatim>\<open>AddBlockElement\<close>
  returned), or does not return at all. The last is the value \<open>None\<close>.
\<close>

datatype error = NullDereference

type_synonym ('s, 'h) outcome = "(error + bool \<times> ('s, 'h) layout_state) option"

definition and_then ::
  "('s, 'h) outcome \<Rightarrow> (bool \<Rightarrow> ('s, 'h) layout_state \<Rightarrow> ('s, 'h) outcome) \<Rightarrow> ('s, 'h) outcome" where
  "and_then m f =
     (case m of
        None \<Rightarrow> None
      | Some (Inl err) \<Rightarrow> Some (Inl err)
      | Some (Inr (ok, s)) \<Rightarrow> f ok s)"

definition returns :: "bool \<Rightarrow> ('s, 'h) layout_state \<Rightarrow> ('s, 'h) outcome" where
  "returns ok s = Some (Inr (ok, s))"

lemma and_then_mono [partial_function_mono]:
  assumes B: "mono_option B" and C: "\<And>ok s. mono_option (\<lambda>f. C ok s f)"
  shows "mono_option (\<lambda>f. and_then (B f) (\<lambda>ok s. C ok s f))"
proof (rule monotoneI)
  fix f g :: "'a \<Rightarrow> 'b option"
  assume fg: "fun_ord option_ord f g"
  from B fg have b: "B f = None \<or> B f = B g"
    by (auto simp: monotone_def flat_ord_def)
  from C fg have c: "C ok s f = None \<or> C ok s f = C ok s g" for ok s
    by (auto simp: monotone_def flat_ord_def)
  from b show "option_ord (and_then (B f) (\<lambda>ok s. C ok s f)) (and_then (B g) (\<lambda>ok s. C ok s g))"
  proof
    assume "B f = None"
    then show ?thesis by (simp add: and_then_def flat_ord_def)
  next
    assume "B f = B g"
    with c show ?thesis
      by (auto simp: and_then_def flat_ord_def split: option.splits sum.splits)
  qed
qed

text \<open>\<^verbatim>\<open>FormatElementSpecial\<close>: a \<^verbatim>\<open><br>\<close> tag registers a break and is notified.\<close>

definition FormatElementSpecial ::
  "('s, 'x, 'h) collab \<Rightarrow> block_box \<Rightarrow> element \<Rightarrow> ('s, 'h) layout_state
     \<Rightarrow> bool \<times> ('s, 'h) layout_state" where
  "FormatElementSpecial C block_context_box e s =
     (if tag_name e = ''br''
      then (True, on_layout C e (add_break C block_context_box s))
      else (False, s))"

text \<open>
  \<^verbatim>\<open>FormatElementTable\<close>, lines 276 to 289: the loop \<^verbatim>\<open>for (int i = 0; i < 2; i++)\<close>
  around \<^verbatim>\<open>LayoutTable::FormatTable\<close>, from iteration \<open>i\<close>, up to the \<^verbatim>\<open>return true\<close>
  after it.
\<close>

function table_attempts ::
  "('s, 'x, 'h) collab \<Rightarrow> block_box \<Rightarrow> element \<Rightarrow> nat \<Rightarrow> ('s, 'h) layout_state
     \<Rightarrow> bool \<times> ('s, 'h) layout_state" where
  "table_attempts C table_block_context_box element_table i s =
     (if i < 2 then
        (case format_table C table_block_context_box element_table s of
           (LAYOUT_SELF, s') \<Rightarrow> table_attempts C table_block_context_box element_table (i + 1) s'
         | (LAYOUT_PARENT, s') \<Rightarrow> (False, s')
         | (OK, s') \<Rightarrow> (True, s'))
      else (True, s))"
  by pat_completeness auto
termination
  by (relation "measure (\<lambda>(C, tb, e, i, s). 2 - i)") auto

declare table_attempts.simps [simp del]

definition FormatElementTable ::
  "('s, 'x, 'h) collab \<Rightarrow> block_box \<Rightarrow> element \<Rightarrow> ('s, 'h) layout_state
     \<Rightarrow> bool \<times> ('s, 'h) layout_state" where
  "FormatElementTable C block_context_box element_table s =
     (case BuildBoxIn C block_context_box element_table False (ctx s) of
        (box, min_height, max_height) \<Rightarrow>
          (case add_block_element C block_context_box element_table box min_height max_height s of
             (None, s1) \<Rightarrow> (False, s1)
           | (Some table_block_context_box, s1) \<Rightarrow>
               table_attempts C table_block_context_box element_table 0 s1))"

text \<open>
  The functions of the dispatcher call each other, and a sibling loop that restarts has no
  bound of its own, so they are one partial function over the calls that can be made.
  The loops over the children are calls of their own, from child index \<open>i\<close>:
  \<^item> \<open>Call_ChildrenRestart\<close>: lines 78 to 82 and 185 to 189, where a child that returns
    false sets \<^verbatim>\<open>i = -1\<close>, so that the loop goes on from the first child;
  \<^item> \<open>Call_ChildrenIgnore\<close>: lines 198 and 199, where what the child returns is dropped;
  \<^item> \<open>Call_ChildrenAbort\<close>: lines 234 to 238, where a child that returns false ends the
    function with false;
  \<^item> \<open>Call_RootIterations\<close>: lines 76 to 86, the loop over \<^verbatim>\<open>layout_iteration\<close>.
\<close>

datatype ('x, 'h) call =
    Call_FormatElementRoot element "'h Vector2f" "'x option" bool
  | Call_RootIterations block_box element nat
  | Call_ChildrenRestart block_box element nat
  | Call_ChildrenIgnore block_box element nat
  | Call_ChildrenAbort block_box element nat
  | Call_FormatElement block_box element
  | Call_FormatElementBlock block_box element
  | Call_FormatElementInline block_box element
  | Call_FormatElementInlineBlock block_box element

text \<open>
  The root overload takes \<^verbatim>\<open>override_initial_box\<close> (null is \<open>None\<close>) and whether
  \<^verbatim>\<open>out_visible_overflow_size\<close> is given; the calls with two arguments (lines 140 and
  253) leave both null. It returns nothing: its result is \<open>True\<close> by convention. When
  \<^verbatim>\<open>AddBlockElement\<close> returns null in the root overload, the pointer is used unchecked
  (line 84 at the latest); the model ends there with the error. The assertion of line 56
  and the profiling zones do not change what is computed and are left out. In the loops,
  \<^verbatim>\<open>i = -1\<close> followed by \<^verbatim>\<open>i++\<close> is the index 0.
\<close>

partial_function (option) exec ::
  "('s, 'x, 'h) collab \<Rightarrow> ('x, 'h) call \<Rightarrow> ('s, 'h) layout_state \<Rightarrow> ('s, 'h) outcome" where
  "exec C c s =
     (case c of
        Call_FormatElementRoot e containing_block override_initial_box out \<Rightarrow>
          (case new_block_box C containing_block s of
             (containing_block_box, s0) \<Rightarrow>
               (case (case override_initial_box of
                        Some b \<Rightarrow> b
                      | None \<Rightarrow> BuildBox C containing_block e False (ctx s0)) of
                  box \<Rightarrow>
                    (case GetMinMaxHeight C e box (y containing_block) (ctx s0) of
                       (min_height, max_height) \<Rightarrow>
                         (case add_block_element C containing_block_box e box min_height max_height s0 of
                            (None, s1) \<Rightarrow> Some (Inl NullDereference)
                          | (Some block_context_box, s1) \<Rightarrow>
                              and_then (exec C (Call_RootIterations block_context_box e 0) s1)
                                (\<lambda>_ s2.
                                   (case close_absolute_elements C block_context_box s2 of
                                      s3 \<Rightarrow>
                                        returns True
                                          (on_layout C e
                                             (if out
                                              then s3\<lparr>visible_overflow_size :=
                                                Some (GetVisibleOverflowSize C block_context_box (ctx s3))\<rparr>
                                              else s3))))))))
      | Call_RootIterations block_context_box e layout_iteration \<Rightarrow>
          (if layout_iteration < 2 then
             and_then (exec C (Call_ChildrenRestart block_context_box e 0) s)
               (\<lambda>_ s1.
                  (case close_box C block_context_box s1 of
                     (r, s2) \<Rightarrow>
                       if r = OK then returns True s2
                       else exec C (Call_RootIterations block_context_box e (layout_iteration + 1)) s2))
           else returns True s)
      | Call_ChildrenRestart block_context_box e i \<Rightarrow>
          (if i < length (children e) then
             and_then (exec C (Call_FormatElement block_context_box (children e ! i)) s)
               (\<lambda>ok s1. exec C (Call_ChildrenRestart block_context_box e (if ok then i + 1 else 0)) s1)
           else returns True s)
      | Call_ChildrenIgnore block_context_box e i \<Rightarrow>
          (if i < length (children e) then
             and_then (exec C (Call_FormatElement block_context_box (children e ! i)) s)
               (\<lambda>_ s1. exec C (Call_ChildrenIgnore block_context_box e (i + 1)) s1)
           else returns True s)
      | Call_ChildrenAbort block_context_box e i \<Rightarrow>
          (if i < length (children e) then
             and_then (exec C (Call_FormatElement block_context_box (children e ! i)) s)
               (\<lambda>ok s1.
                  if \<not> ok then returns False s1
                  else exec C (Call_ChildrenAbort block_context_box e (i + 1)) s1)
           else returns True s)
      | Call_FormatElement block_context_box e \<Rightarrow>
          (case FormatElementSpecial C block_context_box e s of
             (special, s1) \<Rightarrow>
               if special then returns True s1
               else if display e = Display_None then returns True s1
               else if position e = Position_Absolute \<or> position e = Position_Fixed then
                 returns True (add_absolute_element C block_context_box e s1)
               else if float_property e \<noteq> Float_None then
                 and_then
                   (exec C (Call_FormatElementRoot e
                              (GetContainingBlock C block_context_box (ctx s1)) None False) s1)
                   (\<lambda>_ s2.
                      (case add_float_element C block_context_box e s2 of
                         (r, s3) \<Rightarrow> returns r s3))
               else
                 (case display e of
                    Display_Block \<Rightarrow> exec C (Call_FormatElementBlock block_context_box e) s1
                  | Display_Inline \<Rightarrow> exec C (Call_FormatElementInline block_context_box e) s1
                  | Display_InlineBlock \<Rightarrow>
                      exec C (Call_FormatElementInlineBlock block_context_box e) s1
                  | Display_Table \<Rightarrow>
                      (case FormatElementTable C block_context_box e s1 of
                         (r, s2) \<Rightarrow> returns r s2)
                  | Display_None \<Rightarrow> returns True s1
                  | _ \<Rightarrow>
                      returns True
                        (log_warning
                           (case display_property e of
                              Some p \<Rightarrow> p
                            | None \<Rightarrow> ''*unknown*'')
                           (address e) s1)))
      | Call_FormatElementBlock block_context_box e \<Rightarrow>
          (case BuildBoxIn C block_context_box e False (ctx s) of
             (box, min_height, max_height) \<Rightarrow>
               (case add_block_element C block_context_box e box min_height max_height s of
                  (None, s1) \<Rightarrow> returns False s1
                | (Some new_block_context_box, s1) \<Rightarrow>
                    and_then (exec C (Call_ChildrenRestart new_block_context_box e 0) s1)
                      (\<lambda>_ s2.
                         (case close_box C new_block_context_box s2 of
                            (LAYOUT_SELF, s3) \<Rightarrow>
                              and_then (exec C (Call_ChildrenIgnore new_block_context_box e 0) s3)
                                (\<lambda>_ s4.
                                   (case close_box C new_block_context_box s4 of
                                      (r, s5) \<Rightarrow>
                                        if r = OK then returns True (on_layout C e s5)
                                        else returns False s5))
                          | (LAYOUT_PARENT, s3) \<Rightarrow> returns False s3
                          | (OK, s3) \<Rightarrow> returns True (on_layout C e s3)))))
      | Call_FormatElementInline block_context_box e \<Rightarrow>
          (case GetContainingBlock C block_context_box (ctx s) of
             containing_block \<Rightarrow>
               (case add_inline_element C block_context_box e
                       (BuildBox C containing_block e True (ctx s)) s of
                  (inline_box, s1) \<Rightarrow>
                    and_then (exec C (Call_ChildrenAbort block_context_box e 0) s1)
                      (\<lambda>ok s2.
                         if \<not> ok then returns False s2
                         else returns True (inline_close C inline_box s2))))
      | Call_FormatElementInlineBlock block_context_box e \<Rightarrow>
          and_then
            (exec C (Call_FormatElementRoot e
                       (GetContainingBlock C block_context_box (ctx s)) None False) s)
            (\<lambda>_ s1.
               (case add_inline_element C block_context_box e (GetBox C e (ctx s1)) s1 of
                  (inline_box, s2) \<Rightarrow> returns True (inline_close C inline_box s2))))"

text \<open>The functions of the dispatcher, by their names.\<close>

definition FormatElement_root ::
  "('s, 'x, 'h) collab \<Rightarrow> element \<Rightarrow> 'h Vector2f \<Rightarrow> 'x option \<Rightarrow> bool \<Rightarrow> ('s, 'h) layout_state
     \<Rightarrow> ('s, 'h) outcome" where
  "FormatElement_root C e containing_block override_initial_box out s =
     exec C (Call_FormatElementRoot e containing_block override_initial_box out) s"

definition root_iterations ::
  "('s, 'x, 'h) collab \<Rightarrow> block_box \<Rightarrow> element \<Rightarrow> nat \<Rightarrow> ('s, 'h) layout_state \<Rightarrow> ('s, 'h) outcome" where
  "root_iterations C block_context_box e layout_iteration s =
     exec C (Call_RootIterations block_context_box e layout_iteration) s"

definition children_restart ::
  "('s, 'x, 'h) collab \<Rightarrow> block_box \<Rightarrow> element \<Rightarrow> nat \<Rightarrow> ('s, 'h) layout_state \<Rightarrow> ('s, 'h) outcome" where
  "children_restart C block_context_box e i s = exec C (Call_ChildrenRestart block_context_box e i) s"

definition children_ignore ::
  "('s, 'x, 'h) collab \<Rightarrow> block_box \<Rightarrow> element \<Rightarrow> nat \<Rightarrow> ('s, 'h) layout_state \<Rightarrow> ('s, 'h) outcome" where
  "children_ignore C block_context_box e i s = exec C (Call_ChildrenIgnore block_context_box e i) s"

definition children_abort ::
  "('s, 'x, 'h) collab \<Rightarrow> block_box \<Rightarrow> element \<Rightarrow> nat \<Rightarrow> ('s, 'h) layout_state \<Rightarrow> ('s, 'h) outcome" where
  "children_abort C block_context_box e i s = exec C (Call_ChildrenAbort block_context_box e i) s"

definition FormatElement ::
  "('s, 'x, 'h) collab \<Rightarrow> block_box \<Rightarrow> element \<Rightarrow> ('s, 'h) layout_state \<Rightarrow> ('s, 'h) outcome" where
  "FormatElement C block_context_box e s = exec C (Call_FormatElement block_context_box e) s"

definition FormatElementBlock ::
  "('s, 'x, 'h) collab \<Rightarrow> block_box \<Rightarrow> element \<Rightarrow> ('s, 'h) layout_state \<Rightarrow> ('s, 'h) outcome" where
  "FormatElementBlock C block_context_box e s = exec C (Call_FormatElementBlock block_context_box e) s"

definition FormatElementInline ::
  "('s, 'x, 'h) collab \<Rightarrow> block_box \<Rightarrow> element \<Rightarrow> ('s, 'h) layout_state \<Rightarrow> ('s, 'h) outcome" where
  "FormatElementInline C block_context_box e s = exec C (Call_FormatElementInline block_context_box e) s"

definition FormatElementInlineBlock ::
  "('s, 'x, 'h) collab \<Rightarrow> block_box \<Rightarrow> element \<Rightarrow> ('s, 'h) layout_state \<Rightarrow> ('s, 'h) outcome" where
  "FormatElementInlineBlock C block_context_box e s =
     exec C (Call_FormatElementInlineBlock block_context_box e) s"

lemmas dispatcher_defs =
  FormatElement_root_def root_iterations_def children_restart_def children_ignore_def
  children_abort_def FormatElement_def FormatElementBlock_def FormatElementInline_def
  FormatElementInlineBlock_def

section \<open>Passes over the children, as lists\<close>

text \<open>
  Each child formatted once, in order, whatever it returns: what a pass over the children
  is when nothing restarts it.
\<close>

primrec format_in_order ::
  "('s, 'x, 'h) collab \<Rightarrow> block_box \<Rightarrow> element list \<Rightarrow> ('s, 'h) layout_state \<Rightarrow> ('s, 'h) outcome" where
  "format_in_order C b [] s = returns True s"
| "format_in_order C b (c # cs) s =
     and_then (FormatElement C b c s) (\<lambda>_ s1. format_in_order C b cs s1)"

text \<open>
  Each of the elements, formatted in order, returns true; the result is the state after
  the last one.
\<close>

primrec all_succeed ::
  "('s, 'x, 'h) collab \<Rightarrow> block_box \<Rightarrow> element list \<Rightarrow> ('s, 'h) layout_state
     \<Rightarrow> ('s, 'h) layout_state option" where
  "all_succeed C b [] s = Some s"
| "all_succeed C b (c # cs) s =
     (case FormatElement C b c s of
        Some (Inr (True, s1)) \<Rightarrow> all_succeed C b cs s1
      | _ \<Rightarrow> None)"

section \<open>A scripted context for concrete runs\<close>

text \<open>
  A context whose answers are read off scripts: \<^verbatim>\<open>Close\<close>, \<^verbatim>\<open>AddBlockElement\<close>,
  \<^verbatim>\<open>AddFloatElement\<close> and \<^verbatim>\<open>FormatTable\<close> each take the next entry of their script and
  succeed once it is used up. Boxes get the addresses \<open>fresh\<close>, \<open>fresh + 1\<close>, and so on.
\<close>

record test_ctx =
  close_script :: "CloseResult list"
  add_block_script :: "bool list"
  float_script :: "bool list"
  table_script :: "CloseResult list"
  fresh :: nat

definition scripted :: "(test_ctx, unit, unit) collab" where
  "scripted =
     \<lparr> BuildBox = (\<lambda>cb e inl c. ()),
       GetMinMaxHeight = (\<lambda>e box h c. ((), ())),
       BuildBoxIn = (\<lambda>b e inl c. ((), (), ())),
       GetContainingBlock = (\<lambda>b c. \<lparr>x = (), y = ()\<rparr>),
       NewBlockBox = (\<lambda>cb c. (fresh c, c\<lparr>fresh := fresh c + 1\<rparr>)),
       AddBlockElement = (\<lambda>b e box mn mx c.
          case add_block_script c of
            [] \<Rightarrow> (Some (fresh c), c\<lparr>fresh := fresh c + 1\<rparr>)
          | r # rest \<Rightarrow>
              if r then (Some (fresh c), c\<lparr>add_block_script := rest, fresh := fresh c + 1\<rparr>)
              else (None, c\<lparr>add_block_script := rest\<rparr>)),
       Close = (\<lambda>b c.
          case close_script c of
            [] \<Rightarrow> (OK, c)
          | r # rest \<Rightarrow> (r, c\<lparr>close_script := rest\<rparr>)),
       CloseAbsoluteElements = (\<lambda>b c. c),
       GetVisibleOverflowSize = (\<lambda>b c. \<lparr>x = (), y = ()\<rparr>),
       AddAbsoluteElement = (\<lambda>b e c. c),
       AddFloatElement = (\<lambda>b e c.
          case float_script c of
            [] \<Rightarrow> (True, c)
          | r # rest \<Rightarrow> (r, c\<lparr>float_script := rest\<rparr>)),
       AddInlineElement = (\<lambda>b e box c. (fresh c, c\<lparr>fresh := fresh c + 1\<rparr>)),
       InlineClose = (\<lambda>i c. c),
       AddBreak = (\<lambda>b c. c),
       FormatTable = (\<lambda>b e c.
          case table_script c of
            [] \<Rightarrow> (OK, c)
          | r # rest \<Rightarrow> (r, c\<lparr>table_script := rest\<rparr>)),
       OnLayout = (\<lambda>e c. c),
       GetBox = (\<lambda>e c. ()) \<rparr>"

definition config ::
  "event list \<Rightarrow> CloseResult list \<Rightarrow> bool list \<Rightarrow> bool list \<Rightarrow> CloseResult list \<Rightarrow> nat
     \<Rightarrow> (test_ctx, unit) layout_state" where
  "config tr cs bs fs ts n =
     \<lparr> trace = tr, visible_overflow_size = None,
       ctx = \<lparr> close_script = cs, add_block_script = bs, float_script = fs,
               table_script = ts, fresh = n \<rparr> \<rparr>"

text \<open>The state before a run: nothing called yet, the scripts given, addresses from 1.\<close>

definition start ::
  "CloseResult list \<Rightarrow> bool list \<Rightarrow> bool list \<Rightarrow> CloseResult list \<Rightarrow> (test_ctx, unit) layout_state" where
  "start cs bs fs ts = config [] cs bs fs ts 1"

text \<open>An element without children, its address being its tag.\<close>

definition leaf :: "nat \<Rightarrow> string \<Rightarrow> Display \<Rightarrow> Position \<Rightarrow> Float \<Rightarrow> element" where
  "leaf n tag d p f = Element n tag tag d p f None []"


text \<open>A paragraph: a block without children.\<close>

definition para :: "nat \<Rightarrow> element" where
  "para n = leaf n ''p'' Display_Block Position_Static Float_None"

text \<open>Elements for the concrete runs.\<close>

definition hidden_br :: element where
  "hidden_br = Element 7 ''br'' ''body > br'' Display_None Position_Static Float_None None []"

definition hidden_div :: element where
  "hidden_div = Element 1 ''div'' ''body > div'' Display_None Position_Static Float_None None
     [para 2,
      leaf 3 ''br'' Display_Inline Position_Static Float_None]"

definition two_blocks :: element where
  "two_blocks = Element 1 ''div'' ''body > div'' Display_Block Position_Static Float_None None
     [para 2,
      para 3]"

definition hidden_absolute :: element where
  "hidden_absolute = Element 4 ''div'' ''body > div'' Display_None Position_Absolute Float_None None
     [para 5]"

definition absolute_div :: element where
  "absolute_div = Element 4 ''div'' ''body > div'' Display_Block Position_Absolute Float_None None
     [para 5]"

definition absolute_float :: element where
  "absolute_float = Element 4 ''div'' ''body > div'' Display_Block Position_Absolute Float_Left None
     [para 5]"

definition float_div :: element where
  "float_div = Element 4 ''div'' ''body > div'' Display_Block Position_Static Float_Left None
     [para 5]"

definition float_cell :: element where
  "float_cell = Element 6 ''td'' ''body > td'' Display_TableCell Position_Static Float_Left
     (Some ''table-cell'') []"

definition stray_cell :: element where
  "stray_cell = Element 6 ''td'' ''body > td'' Display_TableCell Position_Static Float_None
     (Some ''table-cell'') [para 5]"

definition table_element :: element where
  "table_element = Element 8 ''table'' ''body > table'' Display_Table Position_Static Float_None None
     [leaf 9 ''tr'' Display_TableRow Position_Static Float_None]"

definition inline_block_element :: element where
  "inline_block_element =
     Element 10 ''span'' ''body > span'' Display_InlineBlock Position_Static Float_None None
       [para 11]"

definition page :: element where
  "page = Element 20 ''body'' ''body'' Display_Block Position_Static Float_None None
     [absolute_div, float_div, para 21]"

section \<open>A context that never commits\<close>

text \<open>
  A context that never commits a child: as \<open>scripted\<close>, but every \<^verbatim>\<open>Close\<close> answers
  \<^verbatim>\<open>LAYOUT_PARENT\<close>. And a block with one paragraph in it.
\<close>

definition stubborn :: "(test_ctx, unit, unit) collab" where
  "stubborn = scripted\<lparr>Close := (\<lambda>b c. (LAYOUT_PARENT, c))\<rparr>"

definition one_block :: element where
  "one_block = Element 1 ''div'' ''body > div'' Display_Block Position_Static Float_None None
     [para 2]"

section \<open>Where the deferred absolutes are closed\<close>

text \<open>
  In a sequence of calls, every \<^verbatim>\<open>CloseAbsoluteElements\<close> on a box comes directly after the
  \<^verbatim>\<open>Close\<close> of the same box and directly before an \<^verbatim>\<open>OnLayout\<close>. \<open>prev\<close> is the call
  before the sequence, if any.
\<close>

fun placed_from :: "event option \<Rightarrow> event list \<Rightarrow> bool" where
  "placed_from prev [] = True"
| "placed_from prev (ev # rest) =
     ((case ev of
         Ev_CloseAbsoluteElements b \<Rightarrow>
           prev = Some (Ev_Close b) \<and>
           (case rest of Ev_OnLayout e # _ \<Rightarrow> True | _ \<Rightarrow> False)
       | _ \<Rightarrow> True) \<and>
      placed_from (Some ev) rest)"

definition absolutes_placed :: "event list \<Rightarrow> bool" where
  "absolutes_placed evs = placed_from None evs"

text \<open>
  A result that, when it is a return, has only added calls to those of \<open>s\<close>, with the
  deferred absolutes placed as above.
\<close>

definition grows ::
  "('s, 'h) layout_state \<Rightarrow> error + bool \<times> ('s, 'h) layout_state \<Rightarrow> bool" where
  "grows s res \<longleftrightarrow>
     (\<forall>ok s'. res = Inr (ok, s') \<longrightarrow>
        (\<exists>evs. trace s' = trace s @ evs \<and> absolutes_placed evs))"

section \<open>A recording context for concrete runs\<close>

text \<open>
  A context that keeps what it is told: the elements notified by \<^verbatim>\<open>OnLayout\<close>, the inline
  boxes closed, the boxes whose deferred absolutes were closed. \<^verbatim>\<open>Close\<close> takes its
  answers from a script and answers \<^verbatim>\<open>OK\<close> once it is used up; everything else succeeds.
\<close>

record rec_ctx =
  close_answers :: "CloseResult list"
  notified :: "element list"
  closed_inline :: "inline_box list"
  closed_absolutes :: "block_box list"
  next_address :: nat

definition recording :: "(rec_ctx, unit, unit) collab" where
  "recording =
     \<lparr> BuildBox = (\<lambda>cb e inl c. ()),
       GetMinMaxHeight = (\<lambda>e box h c. ((), ())),
       BuildBoxIn = (\<lambda>b e inl c. ((), (), ())),
       GetContainingBlock = (\<lambda>b c. \<lparr>x = (), y = ()\<rparr>),
       NewBlockBox = (\<lambda>cb c. (next_address c, c\<lparr>next_address := next_address c + 1\<rparr>)),
       AddBlockElement = (\<lambda>b e box mn mx c.
          (Some (next_address c), c\<lparr>next_address := next_address c + 1\<rparr>)),
       Close = (\<lambda>b c.
          case close_answers c of
            [] \<Rightarrow> (OK, c)
          | r # rest \<Rightarrow> (r, c\<lparr>close_answers := rest\<rparr>)),
       CloseAbsoluteElements = (\<lambda>b c. c\<lparr>closed_absolutes := closed_absolutes c @ [b]\<rparr>),
       GetVisibleOverflowSize = (\<lambda>b c. \<lparr>x = (), y = ()\<rparr>),
       AddAbsoluteElement = (\<lambda>b e c. c),
       AddFloatElement = (\<lambda>b e c. (True, c)),
       AddInlineElement = (\<lambda>b e box c.
          (next_address c, c\<lparr>next_address := next_address c + 1\<rparr>)),
       InlineClose = (\<lambda>i c. c\<lparr>closed_inline := closed_inline c @ [i]\<rparr>),
       AddBreak = (\<lambda>b c. c),
       FormatTable = (\<lambda>b e c. (OK, c)),
       OnLayout = (\<lambda>e c. c\<lparr>notified := notified c @ [e]\<rparr>),
       GetBox = (\<lambda>e c. ()) \<rparr>"

text \<open>
  A state of the recording context: the calls made, the answers left for \<^verbatim>\<open>Close\<close>, the
  elements notified, the inline boxes closed, the boxes whose absolutes were closed, and the
  next address.
\<close>

definition recorded ::
  "event list \<Rightarrow> CloseResult list \<Rightarrow> element list \<Rightarrow> inline_box list \<Rightarrow> block_box list \<Rightarrow> nat
     \<Rightarrow> (rec_ctx, unit) layout_state" where
  "recorded tr answers ns ics bs n =
     \<lparr> trace = tr, visible_overflow_size = None,
       ctx = \<lparr> close_answers = answers, notified = ns, closed_inline = ics,
               closed_absolutes = bs, next_address = n \<rparr> \<rparr>"

definition emphasis :: "nat \<Rightarrow> element" where
  "emphasis n = leaf n ''em'' Display_Inline Position_Static Float_None"

definition inline_pair :: element where
  "inline_pair =
     Element 16 ''span'' ''body > span'' Display_Inline Position_Static Float_None None
       [emphasis 17, emphasis 18]"

definition inline_mixed :: element where
  "inline_mixed =
     Element 12 ''span'' ''body > span'' Display_Inline Position_Static Float_None None
       [emphasis 13, para 14, emphasis 15]"

section \<open>The functions unfolded once\<close>

lemma and_then_simps [simp]:
  "and_then None f = None"
  "and_then (Some (Inl err)) f = Some (Inl err)"
  "and_then (Some (Inr (ok, s))) f = f ok s"
  "and_then (returns ok s) f = f ok s"
  by (simp_all add: and_then_def returns_def)

lemma root_iterations_unfold:
  "root_iterations C b e layout_iteration s =
     (if layout_iteration < 2 then
        and_then (children_restart C b e 0 s)
          (\<lambda>_ s1. case close_box C b s1 of
                     (r, s2) \<Rightarrow> if r = OK then returns True s2
                                else root_iterations C b e (layout_iteration + 1) s2)
      else returns True s)"
  unfolding dispatcher_defs by (subst exec.simps) simp

lemma children_restart_unfold:
  "children_restart C b e i s =
     (if i < length (children e) then
        and_then (FormatElement C b (children e ! i) s)
          (\<lambda>ok s1. children_restart C b e (if ok then i + 1 else 0) s1)
      else returns True s)"
  unfolding dispatcher_defs by (subst exec.simps) simp

lemma children_ignore_unfold:
  "children_ignore C b e i s =
     (if i < length (children e) then
        and_then (FormatElement C b (children e ! i) s)
          (\<lambda>_ s1. children_ignore C b e (i + 1) s1)
      else returns True s)"
  unfolding dispatcher_defs by (subst exec.simps) simp

lemma children_abort_unfold:
  "children_abort C b e i s =
     (if i < length (children e) then
        and_then (FormatElement C b (children e ! i) s)
          (\<lambda>ok s1. if \<not> ok then returns False s1 else children_abort C b e (i + 1) s1)
      else returns True s)"
  unfolding dispatcher_defs by (subst exec.simps) simp

lemma FormatElement_root_unfold:
  "FormatElement_root C e containing_block override_initial_box out s =
     (case new_block_box C containing_block s of
        (containing_block_box, s0) \<Rightarrow>
          (case (case override_initial_box of
                   Some b \<Rightarrow> b
                 | None \<Rightarrow> BuildBox C containing_block e False (ctx s0)) of
             box \<Rightarrow>
               (case GetMinMaxHeight C e box (y containing_block) (ctx s0) of
                  (min_height, max_height) \<Rightarrow>
                    (case add_block_element C containing_block_box e box min_height max_height s0 of
                       (None, s1) \<Rightarrow> Some (Inl NullDereference)
                     | (Some block_context_box, s1) \<Rightarrow>
                         and_then (root_iterations C block_context_box e 0 s1)
                           (\<lambda>_ s2.
                              (case close_absolute_elements C block_context_box s2 of
                                 s3 \<Rightarrow>
                                   returns True
                                     (on_layout C e
                                        (if out
                                         then s3\<lparr>visible_overflow_size :=
                                           Some (GetVisibleOverflowSize C block_context_box (ctx s3))\<rparr>
                                         else s3))))))))"
  unfolding dispatcher_defs by (subst exec.simps) simp

lemma FormatElement_unfold:
  "FormatElement C b e s =
     (case FormatElementSpecial C b e s of
        (special, s1) \<Rightarrow>
          if special then returns True s1
          else if display e = Display_None then returns True s1
          else if position e = Position_Absolute \<or> position e = Position_Fixed then
            returns True (add_absolute_element C b e s1)
          else if float_property e \<noteq> Float_None then
            and_then (FormatElement_root C e (GetContainingBlock C b (ctx s1)) None False s1)
              (\<lambda>_ s2. case add_float_element C b e s2 of (r, s3) \<Rightarrow> returns r s3)
          else
            (case display e of
               Display_Block \<Rightarrow> FormatElementBlock C b e s1
             | Display_Inline \<Rightarrow> FormatElementInline C b e s1
             | Display_InlineBlock \<Rightarrow> FormatElementInlineBlock C b e s1
             | Display_Table \<Rightarrow> (case FormatElementTable C b e s1 of (r, s2) \<Rightarrow> returns r s2)
             | Display_None \<Rightarrow> returns True s1
             | _ \<Rightarrow>
                 returns True
                   (log_warning
                      (case display_property e of Some p \<Rightarrow> p | None \<Rightarrow> ''*unknown*'')
                      (address e) s1)))"
  unfolding dispatcher_defs by (subst exec.simps) simp

lemma FormatElementBlock_unfold:
  "FormatElementBlock C b e s =
     (case BuildBoxIn C b e False (ctx s) of
        (box, min_height, max_height) \<Rightarrow>
          (case add_block_element C b e box min_height max_height s of
             (None, s1) \<Rightarrow> returns False s1
           | (Some new_block_context_box, s1) \<Rightarrow>
               and_then (children_restart C new_block_context_box e 0 s1)
                 (\<lambda>_ s2.
                    (case close_box C new_block_context_box s2 of
                       (LAYOUT_SELF, s3) \<Rightarrow>
                         and_then (children_ignore C new_block_context_box e 0 s3)
                           (\<lambda>_ s4.
                              (case close_box C new_block_context_box s4 of
                                 (r, s5) \<Rightarrow>
                                   if r = OK then returns True (on_layout C e s5)
                                   else returns False s5))
                     | (LAYOUT_PARENT, s3) \<Rightarrow> returns False s3
                     | (OK, s3) \<Rightarrow> returns True (on_layout C e s3)))))"
  unfolding dispatcher_defs by (subst exec.simps) simp

lemma FormatElementInline_unfold:
  "FormatElementInline C b e s =
     (case add_inline_element C b e
             (BuildBox C (GetContainingBlock C b (ctx s)) e True (ctx s)) s of
        (inline_box, s1) \<Rightarrow>
          and_then (children_abort C b e 0 s1)
            (\<lambda>ok s2. if \<not> ok then returns False s2
                      else returns True (inline_close C inline_box s2)))"
  unfolding dispatcher_defs by (subst exec.simps) simp

lemma FormatElementInlineBlock_unfold:
  "FormatElementInlineBlock C b e s =
     and_then (FormatElement_root C e (GetContainingBlock C b (ctx s)) None False s)
       (\<lambda>_ s1. case add_inline_element C b e (GetBox C e (ctx s1)) s1 of
                  (inline_box, s2) \<Rightarrow> returns True (inline_close C inline_box s2))"
  unfolding dispatcher_defs by (subst exec.simps) simp

lemmas call_defs =
  new_block_box_def add_block_element_def close_box_def close_absolute_elements_def
  add_absolute_element_def add_float_element_def add_inline_element_def inline_close_def
  add_break_def format_table_def on_layout_def log_warning_def emit_def

lemmas run_simps =
  FormatElement_root_unfold root_iterations_unfold children_restart_unfold
  children_ignore_unfold children_abort_unfold FormatElement_unfold FormatElementBlock_unfold
  FormatElementInline_unfold FormatElementInlineBlock_unfold FormatElementSpecial_def
  FormatElementTable_def table_attempts.simps para_def leaf_def start_def config_def scripted_def call_defs
  eval_nat_numeral

section \<open>The loops of the dispatcher\<close>

lemma root_iterations_done: "root_iterations C b e (Suc (Suc 0)) s = returns True s"
  by (subst root_iterations_unfold) simp

lemma root_iterations_second:
  "root_iterations C b e (Suc 0) s =
     and_then (children_restart C b e 0 s)
       (\<lambda>_ s1. case close_box C b s1 of (r, s2) \<Rightarrow> returns True s2)"
  by (subst root_iterations_unfold) (simp add: root_iterations_done cong: prod.case_cong if_cong)

lemma root_iterations_two_passes:
  "root_iterations C b e 0 s =
     and_then (children_restart C b e 0 s)
       (\<lambda>_ s1. case close_box C b s1 of
                  (r, s2) \<Rightarrow>
                    if r = OK then returns True s2
                    else and_then (children_restart C b e 0 s2)
                           (\<lambda>_ s3. case close_box C b s3 of (r', s4) \<Rightarrow> returns True s4))"
  by (subst root_iterations_unfold) (simp add: root_iterations_second cong: prod.case_cong if_cong)

lemma children_ignore_in_order:
  "children_ignore C b e i s = format_in_order C b (drop i (children e)) s"
proof (induction "length (children e) - i" arbitrary: i s)
  case 0
  then show ?case by (subst children_ignore_unfold) simp
next
  case (Suc n)
  then have i: "i < length (children e)" by simp
  from Suc have ih: "children_ignore C b e (Suc i) =
      format_in_order C b (drop (Suc i) (children e))"
    by (intro ext) simp
  from i have d: "drop i (children e) = children e ! i # drop (Suc i) (children e)"
    by (simp add: Cons_nth_drop_Suc)
  show ?case
    by (subst children_ignore_unfold) (simp add: i d ih)
qed

lemma children_abort_skip:
  assumes "take (length pre) (drop i (children e)) = pre"
    and "i + length pre \<le> length (children e)"
    and "all_succeed C b pre s = Some s'"
  shows "children_abort C b e i s = children_abort C b e (i + length pre) s'"
  using assms
proof (induction pre arbitrary: i s)
  case Nil
  then show ?case by simp
next
  case (Cons c pre)
  then have i: "i < length (children e)" by simp
  from Cons.prems(1) i have c: "children e ! i = c"
    by (metis Cons_nth_drop_Suc length_Cons list.inject take_Suc_Cons)
  from Cons.prems(1) i have rest: "take (length pre) (drop (Suc i) (children e)) = pre"
    by (metis Cons_nth_drop_Suc length_Cons list.inject take_Suc_Cons)
  from Cons.prems(3) obtain s1 where
    f: "FormatElement C b c s = Some (Inr (True, s1))" and a: "all_succeed C b pre s1 = Some s'"
    by (auto split: option.splits sum.splits bool.splits)
  from Cons.IH [OF rest _ a] Cons.prems(2)
  have "children_abort C b e (Suc i) s1 = children_abort C b e (Suc i + length pre) s'"
    by simp
  then show ?case
    by (subst children_abort_unfold) (simp add: i c f)
qed

lemma root_iterations_closes_last:
  assumes "root_iterations C b e 0 s = Some (Inr (ok, s'))"
  shows "\<exists>tr. trace s' = tr @ [Ev_Close b]"
  using assms
  by (auto simp: root_iterations_two_passes and_then_def returns_def close_box_def emit_def
        split: option.splits sum.splits prod.splits if_splits)

lemma ctx_emit [simp]: "ctx (emit ev s) = ctx s"
  by (simp add: emit_def)

lemma root_iterations_cases:
  assumes "root_iterations C b e 0 s1 = Some (Inr (ok, s_end))"
  shows "\<exists>ok1 s2 r1 s3.
           children_restart C b e 0 s1 = Some (Inr (ok1, s2)) \<and>
           close_box C b s2 = (r1, s3) \<and>
           (if r1 = OK then s_end = s3
            else \<exists>ok2 s4 r2.
                   children_restart C b e 0 s3 = Some (Inr (ok2, s4)) \<and>
                   close_box C b s4 = (r2, s_end))"
  using assms
  by (auto simp: root_iterations_two_passes and_then_def returns_def
        split: option.splits sum.splits prod.splits if_splits)

section \<open>Calls are only added\<close>

lemma placed_from_any: "placed_from None evs \<Longrightarrow> placed_from p evs"
  by (cases evs) (auto split: event.splits)

lemma placed_from_append:
  "placed_from p xs \<Longrightarrow> placed_from None ys \<Longrightarrow> placed_from p (xs @ ys)"
proof (induction xs arbitrary: p)
  case Nil
  then show ?case by (simp add: placed_from_any)
next
  case (Cons ev xs)
  then show ?case
    by (cases xs) (auto split: event.splits list.splits)
qed

lemma placed_from_close_absolutes:
  "placed_from p (xs @ [Ev_Close b]) \<Longrightarrow>
     placed_from p (xs @ [Ev_Close b, Ev_CloseAbsoluteElements b, Ev_OnLayout e])"
proof (induction xs arbitrary: p)
  case Nil
  then show ?case by simp
next
  case (Cons ev xs)
  then show ?case
    by (cases xs) (auto split: event.splits list.splits)
qed

lemma absolutes_placed_append:
  "absolutes_placed xs \<Longrightarrow> absolutes_placed ys \<Longrightarrow> absolutes_placed (xs @ ys)"
  unfolding absolutes_placed_def by (rule placed_from_append)

lemma grows_error [simp]: "grows s (Inl err)"
  by (simp add: grows_def)

lemma grows_same [simp]: "grows s (Inr (ok, s))"
  by (simp add: grows_def absolutes_placed_def)

lemma grows_after:
  assumes "trace s1 = trace s @ evs" and "absolutes_placed evs" and "grows s1 res"
  shows "grows s res"
  unfolding grows_def
proof (intro allI impI)
  fix ok s'
  assume "res = Inr (ok, s')"
  with assms(3) obtain evs' where "trace s' = trace s1 @ evs'" and "absolutes_placed evs'"
    by (auto simp: grows_def)
  with assms(1,2) have "trace s' = trace s @ (evs @ evs')" and "absolutes_placed (evs @ evs')"
    by (simp_all add: absolutes_placed_append)
  then show "\<exists>evs. trace s' = trace s @ evs \<and> absolutes_placed evs"
    by blast
qed

lemma grows_trans:
  assumes "grows s (Inr (ok, s1))" and "grows s1 res"
  shows "grows s res"
proof -
  from assms(1) obtain evs where "trace s1 = trace s @ evs" and "absolutes_placed evs"
    by (auto simp: grows_def)
  then show ?thesis using assms(2) by (rule grows_after)
qed

lemma grows_and_then:
  assumes "and_then m k = Some res"
    and "\<And>r. m = Some r \<Longrightarrow> grows s r"
    and "\<And>ok s1. m = Some (Inr (ok, s1)) \<Longrightarrow> k ok s1 = Some res \<Longrightarrow> grows s1 res"
  shows "grows s res"
proof (cases m)
  case None
  with assms(1) show ?thesis by simp
next
  case (Some r)
  show ?thesis
  proof (cases r)
    case (Inl err)
    with Some assms(1) show ?thesis by auto
  next
    case (Inr p)
    obtain ok s1 where p: "p = (ok, s1)" by (cases p)
    from Some Inr p assms(1) have k: "k ok s1 = Some res" by simp
    from assms(2) Some Inr p have "grows s (Inr (ok, s1))" by simp
    moreover from assms(3) Some Inr p k have "grows s1 res" by simp
    ultimately show ?thesis by (rule grows_trans)
  qed
qed

lemma grows_one:
  assumes "trace s1 = trace s @ [ev]" and "\<And>b. ev \<noteq> Ev_CloseAbsoluteElements b"
  shows "grows s (Inr (ok, s1))"
  using assms by (cases ev) (auto simp: grows_def absolutes_placed_def)

lemma and_then_SomeE:
  assumes "and_then m k = Some res"
  obtains (failed) err where "m = Some (Inl err)" and "res = Inl err"
    | (returned) ok s1 where "m = Some (Inr (ok, s1))" and "k ok s1 = Some res"
  using assms by (auto simp: and_then_def split: option.splits sum.splits)

lemma trace_calls:
  "new_block_box C cb s = (b, s') \<Longrightarrow> trace s' = trace s @ [Ev_NewBlockBox b]"
  "add_block_element C b e box mn mx s = (r, s') \<Longrightarrow> trace s' = trace s @ [Ev_AddBlockElement b e]"
  "close_box C b s = (cr, s') \<Longrightarrow> trace s' = trace s @ [Ev_Close b]"
  "add_float_element C b e s = (fr, s') \<Longrightarrow> trace s' = trace s @ [Ev_AddFloatElement b e]"
  "add_inline_element C b e box s = (i, s') \<Longrightarrow> trace s' = trace s @ [Ev_AddInlineElement b e]"
  "format_table C b e s = (cr, s') \<Longrightarrow> trace s' = trace s @ [Ev_FormatTable b e]"
  by (auto simp: call_defs split: prod.splits)

lemma trace_plain:
  "trace (close_absolute_elements C b s) = trace s @ [Ev_CloseAbsoluteElements b]"
  "trace (add_absolute_element C b e s) = trace s @ [Ev_AddAbsoluteElement b e]"
  "trace (inline_close C i s) = trace s @ [Ev_InlineClose i]"
  "trace (add_break C b s) = trace s @ [Ev_AddBreak b]"
  "trace (on_layout C e s) = trace s @ [Ev_OnLayout e]"
  "trace (log_warning d a s) = trace s @ [Ev_LogWarning d a]"
  by (simp_all add: call_defs)

lemma grows_table_attempts:
  "table_attempts C tb e i s = (r, s') \<Longrightarrow> grows s (Inr (r, s'))"
proof (induction C tb e i s rule: table_attempts.induct)
  case (1 C tb e i s)
  note run = "1.prems"
  show ?case
  proof (cases "i < 2")
    case False
    with run show ?thesis by (subst (asm) table_attempts.simps) simp
  next
    case True
    obtain r1 s1 where f: "format_table C tb e s = (r1, s1)"
      by (cases "format_table C tb e s")
    have g1: "grows s (Inr (ok, s1))" for ok
      by (rule grows_one [OF trace_calls(6) [OF f]]) simp
    show ?thesis
    proof (cases r1)
      case OK
      with run True f g1 show ?thesis by (subst (asm) table_attempts.simps) auto
    next
      case LAYOUT_PARENT
      with run True f g1 show ?thesis by (subst (asm) table_attempts.simps) auto
    next
      case LAYOUT_SELF
      with run True f have "table_attempts C tb e (i + 1) s1 = (r, s')"
        by (subst (asm) table_attempts.simps) simp
      from "1.IH" [OF True f [symmetric] LAYOUT_SELF this] g1 show ?thesis
        by (rule grows_trans [rotated])
    qed
  qed
qed

lemma grows_FormatElementTable:
  assumes "FormatElementTable C b e s = (r, s')"
  shows "grows s (Inr (r, s'))"
proof -
  obtain box mn mx where bb: "BuildBoxIn C b e False (ctx s) = (box, mn, mx)"
    by (cases "BuildBoxIn C b e False (ctx s)")
  obtain o1 s1 where ab: "add_block_element C b e box mn mx s = (o1, s1)"
    by (cases "add_block_element C b e box mn mx s")
  have g1: "grows s (Inr (ok, s1))" for ok
    by (rule grows_one [OF trace_calls(2) [OF ab]]) simp
  show ?thesis
  proof (cases o1)
    case None
    with assms bb ab g1 show ?thesis by (simp add: FormatElementTable_def)
  next
    case (Some tb)
    with assms bb ab have "table_attempts C tb e 0 s1 = (r, s')"
      by (simp add: FormatElementTable_def)
    from g1 grows_table_attempts [OF this] show ?thesis by (rule grows_trans)
  qed
qed

lemma grows_FormatElementSpecial:
  assumes "FormatElementSpecial C b e s = (special, s1)"
  shows "grows s (Inr (ok, s1))"
proof (cases "tag_name e = ''br''")
  case True
  with assms have "trace s1 = trace s @ [Ev_AddBreak b, Ev_OnLayout e]"
    by (auto simp: FormatElementSpecial_def trace_plain)
  then show ?thesis by (auto simp: grows_def absolutes_placed_def)
next
  case False
  with assms show ?thesis by (auto simp: FormatElementSpecial_def)
qed

lemma exec_grows_aux:
  fixes C :: "('s, 'x, 'h) collab"
  assumes "exec C c s = Some res"
  shows "grows s res \<and>
         (\<forall>b e it ok s'. c = Call_RootIterations b e it \<longrightarrow> res = Inr (ok, s') \<longrightarrow>
            (if it < 2 then \<exists>evs0. trace s' = trace s @ evs0 @ [Ev_Close b] else s' = s))"
proof -
  define P :: "('s, 'x, 'h) collab \<Rightarrow> ('x, 'h) call \<Rightarrow> ('s, 'h) layout_state
      \<Rightarrow> error + bool \<times> ('s, 'h) layout_state \<Rightarrow> bool"
    where "P = (\<lambda>C c s res. grows s res \<and>
         (\<forall>b e it ok s'. c = Call_RootIterations b e it \<longrightarrow> res = Inr (ok, s') \<longrightarrow>
            (if it < 2 then \<exists>evs0. trace s' = trace s @ evs0 @ [Ev_Close b] else s' = s)))"
  have "P C c s res"
  proof (rule exec.raw_induct [where P = P, OF _ assms], goal_cases)
    case (1 f C c s res)
    note IH = 1(1) and step = 1(2)
    have g: "grows t r" if "f C c' t = Some r" for c' t r
      using IH [OF that] by (simp add: P_def)
    show ?case
    proof (cases c)
      case c: (Call_FormatElementRoot e cb ob out)
      obtain cbb s0 where nb: "new_block_box C cb s = (cbb, s0)"
        by (cases "new_block_box C cb s")
      define box where "box = (case ob of Some b \<Rightarrow> b | None \<Rightarrow> BuildBox C cb e False (ctx s0))"
      obtain mn mx where mm: "GetMinMaxHeight C e box (Vector2f.y cb) (ctx s0) = (mn, mx)"
        by (cases "GetMinMaxHeight C e box (Vector2f.y cb) (ctx s0)")
      obtain o1 s1 where ab: "add_block_element C cbb e box mn mx s0 = (o1, s1)"
        by (cases "add_block_element C cbb e box mn mx s0")
      have t1: "trace s1 = trace s @ [Ev_NewBlockBox cbb, Ev_AddBlockElement cbb e]"
        using trace_calls(1) [OF nb] trace_calls(2) [OF ab] by simp
      have "grows s res"
      proof (cases o1)
        case None
        with step c nb mm ab show ?thesis by (auto simp: box_def [symmetric])
      next
        case (Some bb)
        with step c nb mm ab have run:
          "and_then (f C (Call_RootIterations bb e 0) s1)
             (\<lambda>_ s2. returns True (on_layout C e
                (if out
                 then (close_absolute_elements C bb s2)\<lparr>visible_overflow_size :=
                   Some (GetVisibleOverflowSize C bb (ctx (close_absolute_elements C bb s2)))\<rparr>
                 else close_absolute_elements C bb s2))) = Some res"
          by (simp add: box_def [symmetric])
        from run show ?thesis
        proof (cases rule: and_then_SomeE)
          case (failed err)
          then show ?thesis by simp
        next
          case (returned ok2 s2)
          from IH [OF returned(1)] obtain evs0 where
            e0: "trace s2 = trace s1 @ evs0 @ [Ev_Close bb]"
            by (auto simp: P_def)
          from g [OF returned(1)] e0 have p0: "absolutes_placed (evs0 @ [Ev_Close bb])"
            by (auto simp: grows_def)
          then have p1: "absolutes_placed
              (evs0 @ [Ev_Close bb, Ev_CloseAbsoluteElements bb, Ev_OnLayout e])"
            unfolding absolutes_placed_def by (rule placed_from_close_absolutes)
          have p2: "absolutes_placed [Ev_NewBlockBox cbb, Ev_AddBlockElement cbb e]"
            by (simp add: absolutes_placed_def)
          from returned(2) obtain s' where res: "res = Inr (True, s')"
            and t': "trace s' = trace s2 @ [Ev_CloseAbsoluteElements bb, Ev_OnLayout e]"
            by (cases out) (auto simp: returns_def trace_plain)
          from t' e0 t1 have "trace s' = trace s @
              ([Ev_NewBlockBox cbb, Ev_AddBlockElement cbb e] @
               (evs0 @ [Ev_Close bb, Ev_CloseAbsoluteElements bb, Ev_OnLayout e]))"
            by simp
          moreover from p2 p1 have "absolutes_placed
              ([Ev_NewBlockBox cbb, Ev_AddBlockElement cbb e] @
               (evs0 @ [Ev_Close bb, Ev_CloseAbsoluteElements bb, Ev_OnLayout e]))"
            by (rule absolutes_placed_append)
          ultimately show ?thesis
            unfolding res grows_def by blast
        qed
      qed
      with c show ?thesis by (simp add: P_def)
    next
      case c: (Call_RootIterations b e it)
      show ?thesis
      proof (cases "it < 2")
        case False
        with step c show ?thesis by (auto simp: P_def returns_def)
      next
        case True
        with step c have run:
          "and_then (f C (Call_ChildrenRestart b e 0) s)
             (\<lambda>_ s1. case close_box C b s1 of
                  (r, s2) \<Rightarrow> if r = OK then returns True s2
                             else f C (Call_RootIterations b e (it + 1)) s2) = Some res"
          by simp
        from run show ?thesis
        proof (cases rule: and_then_SomeE)
          case (failed err)
          then show ?thesis by (simp add: P_def)
        next
          case (returned ok1 s1)
          obtain r s2 where cl: "close_box C b s1 = (r, s2)"
            by (cases "close_box C b s1")
          note t2 = trace_calls(3) [OF cl]
          have g1: "grows s (Inr (ok1, s1))" by (rule g [OF returned(1)])
          then obtain evs1 where e1: "trace s1 = trace s @ evs1"
            by (auto simp: grows_def)
          have g2: "grows s1 (Inr (ok, s2))" for ok
            by (rule grows_one [OF t2]) simp
          show ?thesis
          proof (cases "r = OK")
            case ok: True
            with returned(2) cl have res: "res = Inr (True, s2)"
              by (simp add: returns_def)
            from g1 g2 have "grows s res" unfolding res by (rule grows_trans)
            moreover from t2 e1 have "trace s2 = trace s @ evs1 @ [Ev_Close b]" by simp
            ultimately show ?thesis using True c res by (auto simp: P_def)
          next
            case False
            with returned(2) cl have nxt: "f C (Call_RootIterations b e (it + 1)) s2 = Some res"
              by simp
            from g1 g2 have "grows s (Inr (ok1, s2))" by (rule grows_trans)
            then have gr: "grows s res" using g [OF nxt] by (rule grows_trans)
            have "\<exists>evs0. trace s' = trace s @ evs0 @ [Ev_Close b]" if res: "res = Inr (ok, s')"
              for ok s'
            proof (cases "it + 1 < 2")
              case True
              with IH [OF nxt] res obtain evs0 where "trace s' = trace s2 @ evs0 @ [Ev_Close b]"
                by (auto simp: P_def)
              with t2 e1 have "trace s' = trace s @ (evs1 @ [Ev_Close b] @ evs0) @ [Ev_Close b]"
                by simp
              then show ?thesis by blast
            next
              case False
              with IH [OF nxt] res have "s' = s2" by (auto simp: P_def)
              with t2 e1 have "trace s' = trace s @ evs1 @ [Ev_Close b]" by simp
              then show ?thesis by blast
            qed
            with gr True c show ?thesis by (auto simp: P_def)
          qed
        qed
      qed
    next
      case c: (Call_ChildrenRestart b e i)
      have "grows s res"
      proof (cases "i < length (children e)")
        case False
        with step c show ?thesis by (auto simp: returns_def)
      next
        case True
        with step c have run:
          "and_then (f C (Call_FormatElement b (children e ! i)) s)
             (\<lambda>ok s1. f C (Call_ChildrenRestart b e (if ok then i + 1 else 0)) s1) = Some res"
          by simp
        then show ?thesis by (rule grows_and_then) (auto intro: g)
      qed
      with c show ?thesis by (simp add: P_def)
    next
      case c: (Call_ChildrenIgnore b e i)
      have "grows s res"
      proof (cases "i < length (children e)")
        case False
        with step c show ?thesis by (auto simp: returns_def)
      next
        case True
        with step c have run:
          "and_then (f C (Call_FormatElement b (children e ! i)) s)
             (\<lambda>_ s1. f C (Call_ChildrenIgnore b e (i + 1)) s1) = Some res"
          by simp
        then show ?thesis by (rule grows_and_then) (auto intro: g)
      qed
      with c show ?thesis by (simp add: P_def)
    next
      case c: (Call_ChildrenAbort b e i)
      have "grows s res"
      proof (cases "i < length (children e)")
        case False
        with step c show ?thesis by (auto simp: returns_def)
      next
        case True
        with step c have run:
          "and_then (f C (Call_FormatElement b (children e ! i)) s)
             (\<lambda>ok s1. if \<not> ok then returns False s1
                       else f C (Call_ChildrenAbort b e (i + 1)) s1) = Some res"
          by simp
        then show ?thesis
          by (rule grows_and_then) (auto intro: g simp: returns_def split: if_splits)
      qed
      with c show ?thesis by (simp add: P_def)
    next
      case c: (Call_FormatElement b e)
      obtain special s1 where sp: "FormatElementSpecial C b e s = (special, s1)"
        by (cases "FormatElementSpecial C b e s")
      have g1: "grows s (Inr (ok, s1))" for ok
        by (rule grows_FormatElementSpecial [OF sp])
      have "grows s1 res"
      proof -
        consider (special) "special"
          | (none) "\<not> special" "display e = Display_None"
          | (positioned) "\<not> special" "display e \<noteq> Display_None"
              "position e = Position_Absolute \<or> position e = Position_Fixed"
          | (floated) "\<not> special" "display e \<noteq> Display_None"
              "\<not> (position e = Position_Absolute \<or> position e = Position_Fixed)"
              "float_property e \<noteq> Float_None"
          | (flow) "\<not> special" "display e \<noteq> Display_None"
              "\<not> (position e = Position_Absolute \<or> position e = Position_Fixed)"
              "float_property e = Float_None"
          by blast
        then show ?thesis
        proof cases
          case special
          with step c sp show ?thesis by (auto simp: returns_def)
        next
          case none
          with step c sp show ?thesis by (auto simp: returns_def)
        next
          case positioned
          with step c sp have "res = Inr (True, add_absolute_element C b e s1)"
            by (auto simp: returns_def)
          then show ?thesis
            by (auto intro!: grows_one simp: trace_plain)
        next
          case floated
          with step c sp have run:
            "and_then (f C (Call_FormatElementRoot e (GetContainingBlock C b (ctx s1)) None False) s1)
               (\<lambda>_ s2. case add_float_element C b e s2 of (r, s3) \<Rightarrow> returns r s3) = Some res"
            by simp
          then show ?thesis
          proof (rule grows_and_then)
            fix ok s2
            assume "(case add_float_element C b e s2 of (r, s3) \<Rightarrow> returns r s3) = Some res"
            then obtain r s3 where fl: "add_float_element C b e s2 = (r, s3)"
              and res: "res = Inr (r, s3)"
              by (cases "add_float_element C b e s2") (auto simp: returns_def)
            show "grows s2 res"
              unfolding res by (rule grows_one [OF trace_calls(4) [OF fl]]) simp
          qed (rule g)
        next
          case flow
          show ?thesis
          proof (cases "display e")
            case Display_None
            with flow show ?thesis by simp
          next
            case Display_Block
            with flow step c sp show ?thesis by (auto intro: g)
          next
            case Display_Inline
            with flow step c sp show ?thesis by (auto intro: g)
          next
            case Display_InlineBlock
            with flow step c sp show ?thesis by (auto intro: g)
          next
            case Display_Table
            with flow step c sp show ?thesis
              by (auto simp: returns_def split: prod.splits dest: grows_FormatElementTable)
          next
            case Display_TableRow
            with flow step c sp show ?thesis
              by (auto intro!: grows_one simp: returns_def trace_plain)
          next
            case Display_TableRowGroup
            with flow step c sp show ?thesis
              by (auto intro!: grows_one simp: returns_def trace_plain)
          next
            case Display_TableColumn
            with flow step c sp show ?thesis
              by (auto intro!: grows_one simp: returns_def trace_plain)
          next
            case Display_TableColumnGroup
            with flow step c sp show ?thesis
              by (auto intro!: grows_one simp: returns_def trace_plain)
          next
            case Display_TableCell
            with flow step c sp show ?thesis
              by (auto intro!: grows_one simp: returns_def trace_plain)
          qed
        qed
      qed
      with g1 have "grows s res" by (rule grows_trans)
      with c show ?thesis by (simp add: P_def)
    next
      case c: (Call_FormatElementBlock b e)
      obtain box mn mx where bb: "BuildBoxIn C b e False (ctx s) = (box, mn, mx)"
        by (cases "BuildBoxIn C b e False (ctx s)")
      obtain o1 s1 where ab: "add_block_element C b e box mn mx s = (o1, s1)"
        by (cases "add_block_element C b e box mn mx s")
      have g1: "grows s (Inr (ok, s1))" for ok
        by (rule grows_one [OF trace_calls(2) [OF ab]]) simp
      have "grows s1 res"
      proof (cases o1)
        case None
        with step c bb ab show ?thesis by (auto simp: returns_def)
      next
        case (Some nb)
        have closing: "grows t res"
          if "(case close_box C nb t of
                 (r, s5) \<Rightarrow> if r = OK then returns True (on_layout C e s5)
                            else returns False s5) = Some res" for t
        proof -
          obtain r s5 where cl: "close_box C nb t = (r, s5)"
            by (cases "close_box C nb t")
          have g5: "grows t (Inr (ok, s5))" for ok
            by (rule grows_one [OF trace_calls(3) [OF cl]]) simp
          have g6: "grows s5 (Inr (ok, on_layout C e s5))" for ok
            by (rule grows_one [OF trace_plain(5)]) simp
          from that cl g5 g6 show ?thesis
            by (auto simp: returns_def split: if_splits intro: grows_trans)
        qed
        from Some step c bb ab have run:
          "and_then (f C (Call_ChildrenRestart nb e 0) s1)
             (\<lambda>_ s2. case close_box C nb s2 of
                  (LAYOUT_SELF, s3) \<Rightarrow>
                    and_then (f C (Call_ChildrenIgnore nb e 0) s3)
                      (\<lambda>_ s4. case close_box C nb s4 of
                                 (r, s5) \<Rightarrow> if r = OK then returns True (on_layout C e s5)
                                            else returns False s5)
                | (LAYOUT_PARENT, s3) \<Rightarrow> returns False s3
                | (OK, s3) \<Rightarrow> returns True (on_layout C e s3)) = Some res"
          by simp
        then show ?thesis
        proof (rule grows_and_then)
          fix ok s2
          assume k: "(case close_box C nb s2 of
                  (LAYOUT_SELF, s3) \<Rightarrow>
                    and_then (f C (Call_ChildrenIgnore nb e 0) s3)
                      (\<lambda>_ s4. case close_box C nb s4 of
                                 (r, s5) \<Rightarrow> if r = OK then returns True (on_layout C e s5)
                                            else returns False s5)
                | (LAYOUT_PARENT, s3) \<Rightarrow> returns False s3
                | (OK, s3) \<Rightarrow> returns True (on_layout C e s3)) = Some res"
          obtain r s3 where cl: "close_box C nb s2 = (r, s3)"
            by (cases "close_box C nb s2")
          have g3: "grows s2 (Inr (ok', s3))" for ok'
            by (rule grows_one [OF trace_calls(3) [OF cl]]) simp
          have g4: "grows s3 (Inr (ok', on_layout C e s3))" for ok'
            by (rule grows_one [OF trace_plain(5)]) simp
          show "grows s2 res"
          proof (cases r)
            case OK
            with k cl g3 g4 show ?thesis
              by (auto simp: returns_def intro: grows_trans)
          next
            case LAYOUT_PARENT
            with k cl g3 show ?thesis by (auto simp: returns_def)
          next
            case LAYOUT_SELF
            with k cl have "and_then (f C (Call_ChildrenIgnore nb e 0) s3)
                      (\<lambda>_ s4. case close_box C nb s4 of
                                 (r, s5) \<Rightarrow> if r = OK then returns True (on_layout C e s5)
                                            else returns False s5) = Some res"
              by simp
            then have "grows s3 res"
              by (rule grows_and_then) (auto intro: g closing)
            with g3 show ?thesis by (rule grows_trans)
          qed
        qed (rule g)
      qed
      with g1 have "grows s res" by (rule grows_trans)
      with c show ?thesis by (simp add: P_def)
    next
      case c: (Call_FormatElementInline b e)
      obtain ib s1 where ai: "add_inline_element C b e
          (BuildBox C (GetContainingBlock C b (ctx s)) e True (ctx s)) s = (ib, s1)"
        by (cases "add_inline_element C b e
          (BuildBox C (GetContainingBlock C b (ctx s)) e True (ctx s)) s")
      have g1: "grows s (Inr (ok, s1))" for ok
        by (rule grows_one [OF trace_calls(5) [OF ai]]) simp
      from step c ai have run:
        "and_then (f C (Call_ChildrenAbort b e 0) s1)
           (\<lambda>ok s2. if \<not> ok then returns False s2
                     else returns True (inline_close C ib s2)) = Some res"
        by simp
      then have "grows s1 res"
      proof (rule grows_and_then)
        fix ok s2
        assume k: "(if \<not> ok then returns False s2
                    else returns True (inline_close C ib s2)) = Some res"
        have "grows s2 (Inr (True, inline_close C ib s2))"
          by (rule grows_one [OF trace_plain(3)]) simp
        with k show "grows s2 res"
          by (auto simp: returns_def split: if_splits)
      qed (rule g)
      with g1 have "grows s res" by (rule grows_trans)
      with c show ?thesis by (simp add: P_def)
    next
      case c: (Call_FormatElementInlineBlock b e)
      from step c have run:
        "and_then (f C (Call_FormatElementRoot e (GetContainingBlock C b (ctx s)) None False) s)
           (\<lambda>_ s1. case add_inline_element C b e (GetBox C e (ctx s1)) s1 of
                      (ib, s2) \<Rightarrow> returns True (inline_close C ib s2)) = Some res"
        by simp
      then have "grows s res"
      proof (rule grows_and_then)
        fix ok s1
        assume "(case add_inline_element C b e (GetBox C e (ctx s1)) s1 of
                      (ib, s2) \<Rightarrow> returns True (inline_close C ib s2)) = Some res"
        then obtain ib s2 where ai: "add_inline_element C b e (GetBox C e (ctx s1)) s1 = (ib, s2)"
          and res: "res = Inr (True, inline_close C ib s2)"
          by (cases "add_inline_element C b e (GetBox C e (ctx s1)) s1") (auto simp: returns_def)
        have "grows s1 (Inr (True, s2))"
          by (rule grows_one [OF trace_calls(5) [OF ai]]) simp
        moreover have "grows s2 (Inr (True, inline_close C ib s2))"
          by (rule grows_one [OF trace_plain(3)]) simp
        ultimately show "grows s1 res" unfolding res by (rule grows_trans)
      qed (rule g)
      with c show ?thesis by (simp add: P_def)
    qed
  qed
  then show ?thesis by (simp add: P_def)
qed

lemma exec_grows:
  fixes C :: "('s, 'x, 'h) collab"
  shows "exec C c s = Some res \<Longrightarrow> grows s res"
  by (simp add: exec_grows_aux)

lemma root_iterations_ends_with_close:
  fixes C :: "('s, 'x, 'h) collab"
  assumes "root_iterations C b e 0 s = Some (Inr (ok, s'))"
  shows "\<exists>evs0. trace s' = trace s @ evs0 @ [Ev_Close b]"
  using exec_grows_aux [of C "Call_RootIterations b e 0" s "Inr (ok, s')"] assms
  by (simp add: root_iterations_def)

lemmas record_simps = run_simps recording_def recorded_def emphasis_def

lemma FormatElement_grows:
  fixes C :: "('s, 'x, 'h) collab"
  shows "FormatElement C b e s = Some res \<Longrightarrow> grows s res"
  by (simp add: FormatElement_def exec_grows)

lemma FormatElement_root_grows:
  fixes C :: "('s, 'x, 'h) collab"
  shows "FormatElement_root C e cb ob out s = Some res \<Longrightarrow> grows s res"
  by (simp add: FormatElement_root_def exec_grows)

lemma root_iterations_grows:
  fixes C :: "('s, 'x, 'h) collab"
  shows "root_iterations C b e it s = Some res \<Longrightarrow> grows s res"
  by (simp add: root_iterations_def exec_grows)

lemma all_succeed_extends:
  fixes C :: "('s, 'x, 'h) collab"
  shows "all_succeed C b cs s = Some s' \<Longrightarrow> \<exists>evs. trace s' = trace s @ evs"
proof (induction cs arbitrary: s)
  case Nil
  then show ?case by simp
next
  case (Cons c cs)
  from Cons.prems obtain s1 where
    f: "FormatElement C b c s = Some (Inr (True, s1))" and a: "all_succeed C b cs s1 = Some s'"
    by (auto split: option.splits sum.splits bool.splits)
  from FormatElement_grows [OF f] obtain evs1 where "trace s1 = trace s @ evs1"
    by (auto simp: grows_def)
  moreover from Cons.IH [OF a] obtain evs2 where "trace s' = trace s1 @ evs2" by blast
  ultimately have "trace s' = trace s @ (evs1 @ evs2)" by simp
  then show ?case by blast
qed

lemma children_restart_skip:
  assumes "take (length pre) (drop i (children e)) = pre"
    and "i + length pre \<le> length (children e)"
    and "all_succeed C b pre s = Some s'"
  shows "children_restart C b e i s = children_restart C b e (i + length pre) s'"
  using assms
proof (induction pre arbitrary: i s)
  case Nil
  then show ?case by simp
next
  case (Cons c pre)
  then have i: "i < length (children e)" by simp
  from Cons.prems(1) i have c: "children e ! i = c"
    by (metis Cons_nth_drop_Suc length_Cons list.inject take_Suc_Cons)
  from Cons.prems(1) i have rest: "take (length pre) (drop (Suc i) (children e)) = pre"
    by (metis Cons_nth_drop_Suc length_Cons list.inject take_Suc_Cons)
  from Cons.prems(3) obtain s1 where
    f: "FormatElement C b c s = Some (Inr (True, s1))" and a: "all_succeed C b pre s1 = Some s'"
    by (auto split: option.splits sum.splits bool.splits)
  from Cons.IH [OF rest _ a] Cons.prems(2)
  have "children_restart C b e (Suc i) s1 = children_restart C b e (Suc i + length pre) s'"
    by simp
  then show ?case
    by (subst children_restart_unfold) (simp add: i c f)
qed

lemma children_restart_sweep:
  assumes "all_succeed C b (children e) s = Some s'"
  shows "children_restart C b e 0 s = returns True s'"
proof -
  from assms have "children_restart C b e 0 s = children_restart C b e (0 + length (children e)) s'"
    by (intro children_restart_skip) simp_all
  also have "\<dots> = returns True s'"
    by (subst children_restart_unfold) simp
  finally show ?thesis .
qed

lemma children_restart_again:
  assumes "children e = pre @ c # post"
    and "all_succeed C b pre s = Some s2"
    and "FormatElement C b c s2 = Some (Inr (False, s3))"
  shows "children_restart C b e 0 s = children_restart C b e 0 s3"
proof -
  from assms have "children_restart C b e 0 s = children_restart C b e (0 + length pre) s2"
    by (intro children_restart_skip) simp_all
  also from assms have "\<dots> = children_restart C b e 0 s3"
    by (subst children_restart_unfold) simp
  finally show ?thesis .
qed

lemma exec_restart_true:
  fixes C :: "('s, 'x, 'h) collab"
  assumes "exec C c s = Some res"
  shows "\<forall>b e i ok s'. c = Call_ChildrenRestart b e i \<longrightarrow> res = Inr (ok, s') \<longrightarrow> ok"
proof -
  define P :: "('s, 'x, 'h) collab \<Rightarrow> ('x, 'h) call \<Rightarrow> ('s, 'h) layout_state
      \<Rightarrow> error + bool \<times> ('s, 'h) layout_state \<Rightarrow> bool"
    where "P = (\<lambda>C c s res.
       \<forall>b e i ok s'. c = Call_ChildrenRestart b e i \<longrightarrow> res = Inr (ok, s') \<longrightarrow> ok)"
  have "P C c s res"
  proof (rule exec.raw_induct [where P = P, OF _ assms], goal_cases)
    case (1 f C c s res)
    note IH = 1(1) and step = 1(2)
    show ?case
    proof (cases c)
      case c: (Call_ChildrenRestart b e i)
      show ?thesis
      proof (cases "i < length (children e)")
        case False
        with step c show ?thesis by (auto simp: P_def returns_def)
      next
        case True
        with step c have run:
          "and_then (f C (Call_FormatElement b (children e ! i)) s)
             (\<lambda>ok s1. f C (Call_ChildrenRestart b e (if ok then i + 1 else 0)) s1) = Some res"
          by simp
        from run show ?thesis
        proof (cases rule: and_then_SomeE)
          case (failed err)
          then show ?thesis by (simp add: P_def)
        next
          case (returned ok1 s1)
          from IH [OF returned(2)] c show ?thesis by (simp add: P_def)
        qed
      qed
    qed (simp_all add: P_def)
  qed
  then show ?thesis by (simp add: P_def)
qed

lemma children_restart_true:
  fixes C :: "('s, 'x, 'h) collab"
  assumes "children_restart C b e i s = Some (Inr (ok, s'))"
  shows "ok"
  using exec_restart_true [of C "Call_ChildrenRestart b e i" s "Inr (ok, s')"] assms
  by (simp add: children_restart_def)

section \<open>The shape of a root pass\<close>

lemma and_then_assoc:
  "and_then (and_then m k) h = and_then m (\<lambda>ok s. and_then (k ok s) h)"
  by (auto simp: and_then_def split: option.splits sum.splits)

lemma and_then_case_prod:
  "and_then (case p of (r, s) \<Rightarrow> f r s) k = (case p of (r, s) \<Rightarrow> and_then (f r s) k)"
  by (cases p) simp

lemma and_then_if:
  "and_then (if c then m else m') k = (if c then and_then m k else and_then m' k)"
  by simp

lemma root_finish:
  "on_layout C e
     (if out
      then (close_absolute_elements C b t)\<lparr>visible_overflow_size :=
        Some (GetVisibleOverflowSize C b (ctx (close_absolute_elements C b t)))\<rparr>
      else close_absolute_elements C b t) =
   \<lparr>trace = trace t @ [Ev_CloseAbsoluteElements b, Ev_OnLayout e],
    visible_overflow_size =
      (if out then Some (GetVisibleOverflowSize C b (CloseAbsoluteElements C b (ctx t)))
       else visible_overflow_size t),
    ctx = OnLayout C e (CloseAbsoluteElements C b (ctx t))\<rparr>"
  by (cases t) (simp add: call_defs)

lemma root_passes:
  "and_then (root_iterations C b e 0 s) k =
     and_then (children_restart C b e 0 s)
       (\<lambda>_ s2. case Close C b (ctx s2) of
                  (r, c3) \<Rightarrow>
                    if r = OK then k True (s2\<lparr>ctx := c3, trace := trace s2 @ [Ev_Close b]\<rparr>)
                    else and_then
                           (children_restart C b e 0
                              (s2\<lparr>ctx := c3, trace := trace s2 @ [Ev_Close b]\<rparr>))
                           (\<lambda>_ s4. case Close C b (ctx s4) of
                                       (r', c5) \<Rightarrow>
                                         k True (s4\<lparr>ctx := c5,
                                                    trace := trace s4 @ [Ev_Close b]\<rparr>)))"
  by (simp add: root_iterations_two_passes and_then_assoc and_then_case_prod and_then_if
        close_box_def emit_def split_beta cong: if_cong)

section \<open>A sibling loop that never ends\<close>

text \<open>
  With the context \<open>stubborn\<close>, whose \<^verbatim>\<open>Close\<close> answers \<^verbatim>\<open>LAYOUT_PARENT\<close> every time, the
  paragraph of \<open>one_block\<close> returns false each time it is formatted, and the loop over the
  children of \<open>one_block\<close> starts again each time.
\<close>

lemma close_box_stubborn: "close_box stubborn b s = (r, s') \<Longrightarrow> r = LAYOUT_PARENT"
  by (auto simp: close_box_def stubborn_def scripted_def)

lemma stubborn_results:
  assumes "exec C c s = Some res" and "C = stubborn"
  shows "(c = Call_ChildrenRestart b one_block 0 \<longrightarrow> False) \<and>
         (c = Call_FormatElement b (para 2) \<longrightarrow> (\<exists>s'. res = Inr (False, s'))) \<and>
         (c = Call_FormatElementBlock b (para 2) \<longrightarrow> (\<exists>s'. res = Inr (False, s'))) \<and>
         (c = Call_ChildrenRestart b (para 2) i \<longrightarrow> (\<exists>s'. res = Inr (True, s')))"
proof -
  define P :: "(test_ctx, unit, unit) collab \<Rightarrow> (unit, unit) call \<Rightarrow> (test_ctx, unit) layout_state
      \<Rightarrow> error + bool \<times> (test_ctx, unit) layout_state \<Rightarrow> bool"
    where "P = (\<lambda>C c s res. C = stubborn \<longrightarrow>
         (\<forall>b. c = Call_ChildrenRestart b one_block 0 \<longrightarrow> False) \<and>
         (\<forall>b. c = Call_FormatElement b (para 2) \<longrightarrow> (\<exists>s'. res = Inr (False, s'))) \<and>
         (\<forall>b. c = Call_FormatElementBlock b (para 2) \<longrightarrow> (\<exists>s'. res = Inr (False, s'))) \<and>
         (\<forall>b i. c = Call_ChildrenRestart b (para 2) i \<longrightarrow> (\<exists>s'. res = Inr (True, s'))))"
  have "P C c s res"
  proof (rule exec.raw_induct [where P = P, OF _ assms(1)], goal_cases)
    case (1 f C c s res)
    note IH = 1(1) and step = 1(2)
    show ?case
      unfolding P_def
    proof (intro impI conjI allI)
      fix b i
      assume C: "C = stubborn" and c: "c = Call_ChildrenRestart b (para 2) i"
      with step show "\<exists>s'. res = Inr (True, s')"
        by (auto simp: para_def leaf_def returns_def)
    next
      fix b
      assume C: "C = stubborn" and c: "c = Call_FormatElement b (para 2)"
      with step have "f C (Call_FormatElementBlock b (para 2)) s = Some res"
        by (simp add: para_def leaf_def FormatElementSpecial_def)
      from IH [OF this] C show "\<exists>s'. res = Inr (False, s')"
        by (simp add: P_def)
    next
      fix b
      assume C: "C = stubborn" and c: "c = Call_FormatElementBlock b (para 2)"
      obtain o1 s1 where ab: "add_block_element C b (para 2) () () () s = (o1, s1)"
        by (cases "add_block_element C b (para 2) () () () s")
      show "\<exists>s'. res = Inr (False, s')"
      proof (cases o1)
        case None
        with step c ab show ?thesis by (auto simp: returns_def)
      next
        case (Some nb)
        with step c ab have run: "and_then (f C (Call_ChildrenRestart nb (para 2) 0) s1)
            (\<lambda>_ s2. case close_box C nb s2 of
                 (LAYOUT_SELF, s3) \<Rightarrow>
                   and_then (f C (Call_ChildrenIgnore nb (para 2) 0) s3)
                     (\<lambda>_ s4. case close_box C nb s4 of
                                (r, s5) \<Rightarrow> if r = OK then returns True (on_layout C (para 2) s5)
                                           else returns False s5)
               | (LAYOUT_PARENT, s3) \<Rightarrow> returns False s3
               | (OK, s3) \<Rightarrow> returns True (on_layout C (para 2) s3)) = Some res"
          by simp
        then obtain r1 where r1: "f C (Call_ChildrenRestart nb (para 2) 0) s1 = Some r1"
          by (cases "f C (Call_ChildrenRestart nb (para 2) 0) s1") simp_all
        from IH [OF r1] C obtain s2 where s2: "r1 = Inr (True, s2)"
          by (auto simp: P_def)
        obtain r s3 where cl: "close_box C nb s2 = (r, s3)"
          by (cases "close_box C nb s2")
        with close_box_stubborn [of nb s2 r s3] C have "r = LAYOUT_PARENT" by simp
        with run r1 s2 cl show ?thesis by (auto simp: returns_def)
      qed
    next
      fix b
      assume C: "C = stubborn" and c: "c = Call_ChildrenRestart b one_block 0"
      with step have run: "and_then (f C (Call_FormatElement b (para 2)) s)
          (\<lambda>ok s1. f C (Call_ChildrenRestart b one_block (if ok then 0 + 1 else 0)) s1) = Some res"
        by (simp add: one_block_def)
      then obtain r1 where r1: "f C (Call_FormatElement b (para 2)) s = Some r1"
        by (cases "f C (Call_FormatElement b (para 2)) s") simp_all
      from IH [OF r1] C obtain s1 where s1: "r1 = Inr (False, s1)"
        by (auto simp: P_def)
      with run r1 have "f C (Call_ChildrenRestart b one_block 0) s1 = Some res"
        by simp
      from IH [OF this] C show False
        by (simp add: P_def)
    qed
  qed
  with assms(2) show ?thesis by (simp add: P_def)
qed

lemma restart_diverges: "children_restart stubborn b one_block 0 s = None"
proof (cases "children_restart stubborn b one_block 0 s")
  case None
  then show ?thesis .
next
  case (Some res)
  with stubborn_results [of stubborn "Call_ChildrenRestart b one_block 0" s res b]
  show ?thesis by (simp add: children_restart_def)
qed

lemma root_iterations_diverges: "root_iterations stubborn b one_block 0 s = None"
  by (subst root_iterations_unfold) (simp add: restart_diverges)

lemma stubborn_opens:
  "NewBlockBox stubborn = NewBlockBox scripted"
  "AddBlockElement stubborn = AddBlockElement scripted"
  "BuildBox stubborn = BuildBox scripted"
  "GetMinMaxHeight stubborn = GetMinMaxHeight scripted"
  by (simp_all add: stubborn_def)

section \<open>The passes of a root operation\<close>




section \<open>Elements that are not displayed\<close>

text \<open>
  Claim C2, as stated: for every element whose computed display is none,
  \<^verbatim>\<open>FormatElement\<close> returns true at once, delivers no \<^verbatim>\<open>OnLayout\<close> and touches nothing.
  The check for a \<^verbatim>\<open><br>\<close> tag comes first in \<^verbatim>\<open>FormatElement\<close>: a \<^verbatim>\<open><br>\<close> whose display
  is none still registers a break and is notified.
\<close>

theorem display_none_counterexample:
  "display hidden_br = Display_None \<and>
   FormatElement scripted 0 hidden_br (start [] [] [] []) =
     returns True ((start [] [] [] [])\<lparr>trace := [Ev_AddBreak 0, Ev_OnLayout hidden_br]\<rparr>)"
  by (simp add: hidden_br_def run_simps)

text \<open>
  Claim C2, amended: for every element whose computed display is none and whose tag is
  not \<^verbatim>\<open>br\<close>, \<^verbatim>\<open>FormatElement\<close> returns true and leaves the state as it was: no call
  into the context, no box, no \<^verbatim>\<open>OnLayout\<close>, nothing for its children.
\<close>

theorem display_none_skipped:
  assumes "display e = Display_None" and "tag_name e \<noteq> ''br''"
  shows "FormatElement C b e s = returns True s"
  using assms by (simp add: FormatElement_unfold FormatElementSpecial_def)

theorem display_none_skipped_witness:
  "display hidden_div = Display_None \<and> tag_name hidden_div \<noteq> ''br'' \<and>
   FormatElement scripted 0 hidden_div (start [LAYOUT_SELF] [False] [] []) =
     returns True (start [LAYOUT_SELF] [False] [] [])"
  using display_none_skipped [of hidden_div scripted 0 "start [LAYOUT_SELF] [False] [] []"]
  by (simp add: hidden_div_def)

section \<open>Absolutely positioned elements\<close>




section \<open>The local reformat of a block\<close>

text \<open>
  Claim C4: in \<^verbatim>\<open>FormatElementBlock\<close>, when the first \<^verbatim>\<open>Close\<close> of the new context returns
  \<^verbatim>\<open>LAYOUT_SELF\<close>, every child is formatted once more, in order, whatever it returns, and
  \<^verbatim>\<open>Close\<close> is called on the context again. When this second \<^verbatim>\<open>Close\<close> returns \<^verbatim>\<open>OK\<close>,
  \<^verbatim>\<open>OnLayout\<close> is called on the element and the call returns true; otherwise the call
  returns false, and \<^verbatim>\<open>OnLayout\<close> is not called on the element. The calls and the state of
  the context are those of the collaborator's own operations.
\<close>

theorem block_local_reformat:
  assumes "BuildBoxIn C b e False (ctx s) = (box, min_height, max_height)"
    and "AddBlockElement C b e box min_height max_height (ctx s) = (Some new_block_context_box, c1)"
    and "children_restart C new_block_context_box e 0
           (s\<lparr>ctx := c1, trace := trace s @ [Ev_AddBlockElement b e]\<rparr>) = Some (Inr (ok1, s2))"
    and "Close C new_block_context_box (ctx s2) = (LAYOUT_SELF, c3)"
    and "format_in_order C new_block_context_box (children e)
           (s2\<lparr>ctx := c3, trace := trace s2 @ [Ev_Close new_block_context_box]\<rparr>) =
         Some (Inr (ok2, s4))"
    and "Close C new_block_context_box (ctx s4) = (r, c5)"
  shows "FormatElementBlock C b e s =
           (if r = OK
            then returns True
                   (s4\<lparr>ctx := OnLayout C e c5,
                       trace := trace s4 @ [Ev_Close new_block_context_box, Ev_OnLayout e]\<rparr>)
            else returns False
                   (s4\<lparr>ctx := c5, trace := trace s4 @ [Ev_Close new_block_context_box]\<rparr>))"
  using assms by (simp add: FormatElementBlock_unfold children_ignore_in_order call_defs)

theorem block_local_reformat_witness:
  "FormatElementBlock recording 0 two_blocks
       (recorded [] [OK, OK, LAYOUT_SELF, LAYOUT_PARENT, OK, OK] [] [] [] 1) =
     returns True
       (recorded
          [Ev_AddBlockElement 0 two_blocks,
           Ev_AddBlockElement 1 (para 2), Ev_Close 2, Ev_OnLayout (para 2),
           Ev_AddBlockElement 1 (para 3), Ev_Close 3, Ev_OnLayout (para 3),
           Ev_Close 1,
           Ev_AddBlockElement 1 (para 2), Ev_Close 4,
           Ev_AddBlockElement 1 (para 3), Ev_Close 5, Ev_OnLayout (para 3),
           Ev_Close 1, Ev_OnLayout two_blocks]
          [] [para 2, para 3, para 3, two_blocks] [] [] 6) \<and>
   FormatElementBlock recording 0 two_blocks
       (recorded [] [OK, OK, LAYOUT_SELF, LAYOUT_PARENT, OK, LAYOUT_SELF] [] [] [] 1) =
     returns False
       (recorded
          [Ev_AddBlockElement 0 two_blocks,
           Ev_AddBlockElement 1 (para 2), Ev_Close 2, Ev_OnLayout (para 2),
           Ev_AddBlockElement 1 (para 3), Ev_Close 3, Ev_OnLayout (para 3),
           Ev_Close 1,
           Ev_AddBlockElement 1 (para 2), Ev_Close 4,
           Ev_AddBlockElement 1 (para 3), Ev_Close 5, Ev_OnLayout (para 3),
           Ev_Close 1]
          [] [para 2, para 3, para 3] [] [] 6)"
proof -
  let ?first = "[Ev_AddBlockElement 0 two_blocks,
           Ev_AddBlockElement 1 (para 2), Ev_Close 2, Ev_OnLayout (para 2),
           Ev_AddBlockElement 1 (para 3), Ev_Close 3, Ev_OnLayout (para 3)]"
  let ?second = "?first @ [Ev_Close 1,
           Ev_AddBlockElement 1 (para 2), Ev_Close 4,
           Ev_AddBlockElement 1 (para 3), Ev_Close 5, Ev_OnLayout (para 3)]"
  have committed: "FormatElementBlock recording 0 two_blocks
       (recorded [] [OK, OK, LAYOUT_SELF, LAYOUT_PARENT, OK, OK] [] [] [] 1) =
     returns True
       (recorded (?second @ [Ev_Close 1, Ev_OnLayout two_blocks])
          [] [para 2, para 3, para 3, two_blocks] [] [] 6)"
  proof -
    let ?s = "recorded [] [OK, OK, LAYOUT_SELF, LAYOUT_PARENT, OK, OK] [] [] [] 1"
    let ?c1 = "ctx (recorded [] [OK, OK, LAYOUT_SELF, LAYOUT_PARENT, OK, OK] [] [] [] 2)"
    let ?s2 = "recorded ?first [LAYOUT_SELF, LAYOUT_PARENT, OK, OK] [para 2, para 3] [] [] 4"
    let ?c3 = "ctx (recorded [] [LAYOUT_PARENT, OK, OK] [para 2, para 3] [] [] 4)"
    let ?s4 = "recorded ?second [OK] [para 2, para 3, para 3] [] [] 6"
    let ?c5 = "ctx (recorded [] [] [para 2, para 3, para 3] [] [] 6)"
    have build: "BuildBoxIn recording 0 two_blocks False (ctx ?s) = ((), (), ())"
      by (simp add: record_simps)
    have opened: "AddBlockElement recording 0 two_blocks () () () (ctx ?s) = (Some 1, ?c1)"
      by (simp add: record_simps)
    have first_pass: "children_restart recording 1 two_blocks 0
        (?s\<lparr>ctx := ?c1, trace := trace ?s @ [Ev_AddBlockElement 0 two_blocks]\<rparr>) =
        Some (Inr (True, ?s2))"
      by (simp add: two_blocks_def record_simps returns_def)
    have first_close: "Close recording 1 (ctx ?s2) = (LAYOUT_SELF, ?c3)"
      by (simp add: record_simps)
    have second_pass: "format_in_order recording 1 (children two_blocks)
        (?s2\<lparr>ctx := ?c3, trace := trace ?s2 @ [Ev_Close 1]\<rparr>) = Some (Inr (True, ?s4))"
      by (simp add: two_blocks_def record_simps returns_def)
    have second_close: "Close recording 1 (ctx ?s4) = (OK, ?c5)"
      by (simp add: record_simps)
    from block_local_reformat [OF build opened first_pass first_close second_pass second_close]
    show ?thesis by (simp add: record_simps)
  qed
  have refused: "FormatElementBlock recording 0 two_blocks
       (recorded [] [OK, OK, LAYOUT_SELF, LAYOUT_PARENT, OK, LAYOUT_SELF] [] [] [] 1) =
     returns False
       (recorded (?second @ [Ev_Close 1]) [] [para 2, para 3, para 3] [] [] 6)"
  proof -
    let ?s = "recorded [] [OK, OK, LAYOUT_SELF, LAYOUT_PARENT, OK, LAYOUT_SELF] [] [] [] 1"
    let ?c1 = "ctx (recorded [] [OK, OK, LAYOUT_SELF, LAYOUT_PARENT, OK, LAYOUT_SELF] [] [] [] 2)"
    let ?s2 = "recorded ?first [LAYOUT_SELF, LAYOUT_PARENT, OK, LAYOUT_SELF] [para 2, para 3] [] [] 4"
    let ?c3 = "ctx (recorded [] [LAYOUT_PARENT, OK, LAYOUT_SELF] [para 2, para 3] [] [] 4)"
    let ?s4 = "recorded ?second [LAYOUT_SELF] [para 2, para 3, para 3] [] [] 6"
    let ?c5 = "ctx (recorded [] [] [para 2, para 3, para 3] [] [] 6)"
    have build: "BuildBoxIn recording 0 two_blocks False (ctx ?s) = ((), (), ())"
      by (simp add: record_simps)
    have opened: "AddBlockElement recording 0 two_blocks () () () (ctx ?s) = (Some 1, ?c1)"
      by (simp add: record_simps)
    have first_pass: "children_restart recording 1 two_blocks 0
        (?s\<lparr>ctx := ?c1, trace := trace ?s @ [Ev_AddBlockElement 0 two_blocks]\<rparr>) =
        Some (Inr (True, ?s2))"
      by (simp add: two_blocks_def record_simps returns_def)
    have first_close: "Close recording 1 (ctx ?s2) = (LAYOUT_SELF, ?c3)"
      by (simp add: record_simps)
    have second_pass: "format_in_order recording 1 (children two_blocks)
        (?s2\<lparr>ctx := ?c3, trace := trace ?s2 @ [Ev_Close 1]\<rparr>) = Some (Inr (True, ?s4))"
      by (simp add: two_blocks_def record_simps returns_def)
    have second_close: "Close recording 1 (ctx ?s4) = (LAYOUT_SELF, ?c5)"
      by (simp add: record_simps)
    from block_local_reformat [OF build opened first_pass first_close second_pass second_close]
    show ?thesis by (simp add: record_simps)
  qed
  from committed refused show ?thesis by simp
qed

section \<open>A failing child of an inline element\<close>




section \<open>Floats\<close>

text \<open>
  Claim C6, as stated: for every element with a float other than none, \<^verbatim>\<open>FormatElement\<close>
  formats the element as a root, registers it with \<^verbatim>\<open>AddFloatElement\<close> and returns what
  that call returned. The position is tested before the float: a floated element whose
  position is absolute is only registered as an absolute element, and \<^verbatim>\<open>FormatElement\<close>
  returns true where \<^verbatim>\<open>AddFloatElement\<close> would have returned false.
\<close>

theorem float_counterexample:
  "float_property absolute_float \<noteq> Float_None \<and>
   AddFloatElement scripted 0 absolute_float (ctx (start [] [] [False] [])) =
     (False, ctx (start [] [] [] [])) \<and>
   FormatElement scripted 0 absolute_float (start [] [] [False] []) =
     returns True (config [Ev_AddAbsoluteElement 0 absolute_float] [] [] [False] [] 1)"
  by (simp add: absolute_float_def run_simps)

text \<open>
  Claim C6, amended: for every floated element that is not a \<^verbatim>\<open>br\<close> element, whose
  display is not none and whose position is neither absolute nor fixed, \<^verbatim>\<open>FormatElement\<close>
  first runs the root pass on the element against \<^verbatim>\<open>GetContainingBlock\<close> of the parent
  context, with no override box; when that pass returns, it calls \<^verbatim>\<open>AddFloatElement\<close>
  on the state the pass left and returns exactly what that call returned.
\<close>

theorem float_formatted_then_registered:
  assumes "float_property e \<noteq> Float_None"
    and "tag_name e \<noteq> ''br''" and "display e \<noteq> Display_None"
    and "position e \<noteq> Position_Absolute" and "position e \<noteq> Position_Fixed"
    and "FormatElement_root C e (GetContainingBlock C b (ctx s)) None False s = Some (Inr (ok, s1))"
    and "AddFloatElement C b e (ctx s1) = (r, c)"
  shows "FormatElement C b e s =
           returns r (s1\<lparr>ctx := c, trace := trace s1 @ [Ev_AddFloatElement b e]\<rparr>)"
  using assms by (simp add: FormatElement_unfold FormatElementSpecial_def call_defs)

theorem float_formatted_then_registered_witness:
  "FormatElement_root scripted float_div \<lparr>x = (), y = ()\<rparr> None False (start [] [] [False] []) =
     returns True
       (config
          [Ev_NewBlockBox 1, Ev_AddBlockElement 1 float_div, Ev_AddBlockElement 2 (para 5),
           Ev_Close 3, Ev_OnLayout (para 5), Ev_Close 2, Ev_CloseAbsoluteElements 2,
           Ev_OnLayout float_div]
          [] [] [False] [] 4) \<and>
   FormatElement scripted 0 float_div (start [] [] [False] []) =
     returns False
       (config
          [Ev_NewBlockBox 1, Ev_AddBlockElement 1 float_div, Ev_AddBlockElement 2 (para 5),
           Ev_Close 3, Ev_OnLayout (para 5), Ev_Close 2, Ev_CloseAbsoluteElements 2,
           Ev_OnLayout float_div, Ev_AddFloatElement 0 float_div]
          [] [] [] [] 4)"
  using float_formatted_then_registered [where e = float_div and C = scripted and b = 0
      and s = "start [] [] [False] []" and ok = True and r = False
      and ?s1.0 = "config
          [Ev_NewBlockBox 1, Ev_AddBlockElement 1 float_div, Ev_AddBlockElement 2 (para 5),
           Ev_Close 3, Ev_OnLayout (para 5), Ev_Close 2, Ev_CloseAbsoluteElements 2,
           Ev_OnLayout float_div]
          [] [] [False] [] 4"
      and c = "\<lparr> close_script = [], add_block_script = [], float_script = [],
                 table_script = [], fresh = 4 \<rparr>"]
  by (simp add: float_div_def run_simps)

section \<open>Table parts outside a table\<close>

text \<open>
  Claim C7, as stated: for every element whose display is a table part (row, row group,
  column, column group or cell), \<^verbatim>\<open>FormatElement\<close> logs a warning, assigns no box and
  returns true. The display is looked at last: a floated table cell is formatted as a
  float, gets its box, and \<^verbatim>\<open>FormatElement\<close> returns what \<^verbatim>\<open>AddFloatElement\<close> returned,
  here false, with no warning logged.
\<close>

theorem table_role_counterexample:
  "display float_cell = Display_TableCell \<and>
   FormatElement scripted 0 float_cell (start [] [] [False] []) =
     returns False
       (config
          [Ev_NewBlockBox 1, Ev_AddBlockElement 1 float_cell, Ev_Close 2,
           Ev_CloseAbsoluteElements 2, Ev_OnLayout float_cell, Ev_AddFloatElement 0 float_cell]
          [] [] [] [] 3)"
  by (simp add: float_cell_def run_simps)

text \<open>
  Claim C7, amended: for every element whose display is a table part, that is not a
  \<^verbatim>\<open>br\<close> element, whose position is neither absolute nor fixed and that does not float,
  \<^verbatim>\<open>FormatElement\<close> logs one warning with the string of the declared display property
  (\<^verbatim>\<open>*unknown*\<close> when there is none) and the element's address, calls nothing else,
  and returns true.
\<close>

theorem table_role_warning:
  assumes "display e \<in> {Display_TableRow, Display_TableRowGroup, Display_TableColumn,
                          Display_TableColumnGroup, Display_TableCell}"
    and "tag_name e \<noteq> ''br''"
    and "position e \<noteq> Position_Absolute" and "position e \<noteq> Position_Fixed"
    and "float_property e = Float_None"
  shows "FormatElement C b e s =
           returns True
             (s\<lparr>trace := trace s @
                [Ev_LogWarning (case display_property e of Some p \<Rightarrow> p | None \<Rightarrow> ''*unknown*'')
                   (address e)]\<rparr>)"
  using assms by (auto simp add: FormatElement_unfold FormatElementSpecial_def call_defs)

theorem table_role_warning_witness:
  "display stray_cell = Display_TableCell \<and>
   FormatElement scripted 0 stray_cell (start [] [] [] []) =
     returns True (config [Ev_LogWarning ''table-cell'' ''body > td''] [] [] [] [] 1)"
  using table_role_warning [of stray_cell scripted 0 "start [] [] [] []"]
  by (simp add: stray_cell_def start_def config_def)

section \<open>A block whose context cannot be opened\<close>

text \<open>
  Claim C8: in \<^verbatim>\<open>FormatElementBlock\<close>, when \<^verbatim>\<open>AddBlockElement\<close> returns null, the call
  returns false and has done nothing but that one call: no child is formatted.
\<close>

theorem block_open_failure:
  assumes "BuildBoxIn C b e False (ctx s) = (box, min_height, max_height)"
    and "AddBlockElement C b e box min_height max_height (ctx s) = (None, c)"
  shows "FormatElementBlock C b e s =
           returns False (s\<lparr>ctx := c, trace := trace s @ [Ev_AddBlockElement b e]\<rparr>)"
  using assms by (simp add: FormatElementBlock_unfold call_defs)

theorem block_open_failure_witness:
  "BuildBoxIn scripted 0 two_blocks False (ctx (start [] [False] [] [])) = ((), (), ()) \<and>
   AddBlockElement scripted 0 two_blocks () () () (ctx (start [] [False] [] [])) =
     (None, ctx (start [] [] [] [])) \<and>
   FormatElementBlock scripted 0 two_blocks (start [] [False] [] []) =
     returns False ((start [] [] [] [])\<lparr>trace := [Ev_AddBlockElement 0 two_blocks]\<rparr>)"
  using block_open_failure [of scripted 0 two_blocks "start [] [False] [] []" "()" "()" "()"
      "ctx (start [] [] [] [])"]
  by (simp add: scripted_def start_def config_def)

section \<open>The retry budget of a table\<close>

text \<open>
  Claim C9: \<^verbatim>\<open>FormatElementTable\<close> calls \<^verbatim>\<open>LayoutTable::FormatTable\<close> once or twice. A first
  result \<^verbatim>\<open>OK\<close> ends the call with true and \<^verbatim>\<open>LAYOUT_PARENT\<close> with false; \<^verbatim>\<open>LAYOUT_SELF\<close>
  leads to exactly one more call, after which \<^verbatim>\<open>LAYOUT_PARENT\<close> gives false and anything
  else true.
\<close>

theorem table_retry_budget:
  assumes "BuildBoxIn C b e False (ctx s) = (box, min_height, max_height)"
    and "add_block_element C b e box min_height max_height s = (Some table_block_context_box, s1)"
  shows "(format_table C table_block_context_box e s1 = (OK, s2) \<longrightarrow>
            FormatElementTable C b e s = (True, s2)) \<and>
         (format_table C table_block_context_box e s1 = (LAYOUT_PARENT, s2) \<longrightarrow>
            FormatElementTable C b e s = (False, s2)) \<and>
         (format_table C table_block_context_box e s1 = (LAYOUT_SELF, s2) \<longrightarrow>
            (format_table C table_block_context_box e s2 = (OK, s3) \<longrightarrow>
               FormatElementTable C b e s = (True, s3)) \<and>
            (format_table C table_block_context_box e s2 = (LAYOUT_PARENT, s3) \<longrightarrow>
               FormatElementTable C b e s = (False, s3)) \<and>
            (format_table C table_block_context_box e s2 = (LAYOUT_SELF, s3) \<longrightarrow>
               FormatElementTable C b e s = (True, s3))) \<and>
         (\<exists>n. (n = 1 \<or> n = 2) \<and>
            trace (snd (FormatElementTable C b e s)) =
              trace s1 @ replicate n (Ev_FormatTable table_block_context_box e))"
proof -
  have two: "table_attempts C tb e (Suc (Suc 0)) t = (True, t)" for tb t
    by (subst table_attempts.simps) simp
  have one: "table_attempts C tb e (Suc 0) t =
      (case format_table C tb e t of
         (LAYOUT_PARENT, t') \<Rightarrow> (False, t')
       | (_, t') \<Rightarrow> (True, t'))" for tb t
    by (subst table_attempts.simps) (simp add: two split: prod.splits CloseResult.splits)
  have zero: "FormatElementTable C b e s =
      (case format_table C table_block_context_box e s1 of
         (LAYOUT_SELF, t) \<Rightarrow> table_attempts C table_block_context_box e (Suc 0) t
       | (LAYOUT_PARENT, t) \<Rightarrow> (False, t)
       | (OK, t) \<Rightarrow> (True, t))"
    using assms
    by (simp add: FormatElementTable_def)
      (subst table_attempts.simps, simp split: prod.splits CloseResult.splits)
  have tr: "trace (snd (format_table C tb e t)) = trace t @ [Ev_FormatTable tb e]" for tb t
    by (simp add: format_table_def emit_def split: prod.splits)
  have count: "\<exists>n. (n = 1 \<or> n = 2) \<and>
      trace (snd (FormatElementTable C b e s)) =
        trace s1 @ replicate n (Ev_FormatTable table_block_context_box e)"
  proof (cases "format_table C table_block_context_box e s1")
    case (Pair r t)
    with tr [of table_block_context_box s1]
    have t: "trace t = trace s1 @ [Ev_FormatTable table_block_context_box e]"
      by simp
    show ?thesis
    proof (cases "r = LAYOUT_SELF")
      case False
      with Pair t have "trace (snd (FormatElementTable C b e s)) =
          trace s1 @ replicate 1 (Ev_FormatTable table_block_context_box e)"
        by (cases r) (simp_all add: zero)
      then show ?thesis by blast
    next
      case True
      obtain r' t' where p: "format_table C table_block_context_box e t = (r', t')"
        by (cases "format_table C table_block_context_box e t")
      with tr [of table_block_context_box t] t
      have "trace t' = trace s1 @ replicate 2 (Ev_FormatTable table_block_context_box e)"
        by (simp add: numeral_2_eq_2)
      with Pair True p have "trace (snd (FormatElementTable C b e s)) =
          trace s1 @ replicate 2 (Ev_FormatTable table_block_context_box e)"
        by (cases r') (simp_all add: zero one)
      then show ?thesis by blast
    qed
  qed
  show ?thesis
    by (intro conjI impI count) (simp_all add: zero one)
qed

theorem table_retry_budget_witness:
  "format_table scripted 1 table_element
       (config [Ev_AddBlockElement 0 table_element] [] [] [] [LAYOUT_SELF, LAYOUT_PARENT] 2) =
     (LAYOUT_SELF,
      config [Ev_AddBlockElement 0 table_element, Ev_FormatTable 1 table_element]
        [] [] [] [LAYOUT_PARENT] 2) \<and>
   format_table scripted 1 table_element
       (config [Ev_AddBlockElement 0 table_element, Ev_FormatTable 1 table_element]
          [] [] [] [LAYOUT_PARENT] 2) =
     (LAYOUT_PARENT,
      config [Ev_AddBlockElement 0 table_element, Ev_FormatTable 1 table_element,
              Ev_FormatTable 1 table_element] [] [] [] [] 2) \<and>
   FormatElementTable scripted 0 table_element (start [] [] [] [LAYOUT_SELF, LAYOUT_PARENT]) =
     (False,
      config [Ev_AddBlockElement 0 table_element, Ev_FormatTable 1 table_element,
              Ev_FormatTable 1 table_element] [] [] [] [] 2)"
  using table_retry_budget [where C = scripted and b = 0 and e = table_element
      and s = "start [] [] [] [LAYOUT_SELF, LAYOUT_PARENT]"
      and box = "()" and min_height = "()" and max_height = "()"
      and table_block_context_box = 1
      and ?s1.0 = "config [Ev_AddBlockElement 0 table_element] [] [] []
                     [LAYOUT_SELF, LAYOUT_PARENT] 2"
      and ?s2.0 = "config [Ev_AddBlockElement 0 table_element, Ev_FormatTable 1 table_element]
                     [] [] [] [LAYOUT_PARENT] 2"
      and ?s3.0 = "config [Ev_AddBlockElement 0 table_element, Ev_FormatTable 1 table_element,
                     Ev_FormatTable 1 table_element] [] [] [] [] 2"]
  by (simp add: table_element_def run_simps)

section \<open>Inline blocks\<close>

text \<open>
  Claim C10: \<^verbatim>\<open>FormatElementInlineBlock\<close> never returns false. It runs the root pass on
  the element, does not look at how that pass ended, adds the element's box to the parent
  context as an inline element, closes that inline box at once and returns true, also
  when both iterations of the root pass ended with a \<^verbatim>\<open>Close\<close> other than \<^verbatim>\<open>OK\<close>.
\<close>

theorem inline_block_always_true:
  "(FormatElement_root C e (GetContainingBlock C b (ctx s)) None False s = Some (Inr (ok, s1)) \<and>
      AddInlineElement C b e (GetBox C e (ctx s1)) (ctx s1) = (inline_box, c) \<longrightarrow>
      FormatElementInlineBlock C b e s =
        returns True
          (s1\<lparr>ctx := InlineClose C inline_box c,
              trace := trace s1 @ [Ev_AddInlineElement b e, Ev_InlineClose inline_box]\<rparr>)) \<and>
   (FormatElementInlineBlock C b e s = Some (Inr (r, s')) \<longrightarrow> r)"
  by (auto simp: FormatElementInlineBlock_unfold call_defs and_then_def returns_def
        split: option.splits sum.splits prod.splits)

theorem inline_block_always_true_witness:
  "FormatElement_root scripted inline_block_element \<lparr>x = (), y = ()\<rparr> None False
       (start [OK, LAYOUT_SELF, OK, LAYOUT_SELF] [] [] []) =
     returns True
       (config
          [Ev_NewBlockBox 1, Ev_AddBlockElement 1 inline_block_element,
           Ev_AddBlockElement 2 (para 11), Ev_Close 3, Ev_OnLayout (para 11), Ev_Close 2,
           Ev_AddBlockElement 2 (para 11), Ev_Close 4, Ev_OnLayout (para 11), Ev_Close 2,
           Ev_CloseAbsoluteElements 2, Ev_OnLayout inline_block_element]
          [] [] [] [] 5) \<and>
   FormatElementInlineBlock scripted 0 inline_block_element
       (start [OK, LAYOUT_SELF, OK, LAYOUT_SELF] [] [] []) =
     returns True
       (config
          [Ev_NewBlockBox 1, Ev_AddBlockElement 1 inline_block_element,
           Ev_AddBlockElement 2 (para 11), Ev_Close 3, Ev_OnLayout (para 11), Ev_Close 2,
           Ev_AddBlockElement 2 (para 11), Ev_Close 4, Ev_OnLayout (para 11), Ev_Close 2,
           Ev_CloseAbsoluteElements 2, Ev_OnLayout inline_block_element,
           Ev_AddInlineElement 0 inline_block_element, Ev_InlineClose 5]
          [] [] [] [] 6)"
  using inline_block_always_true [where C = scripted and b = 0 and e = inline_block_element
      and s = "start [OK, LAYOUT_SELF, OK, LAYOUT_SELF] [] [] []" and ok = True
      and ?s1.0 = "config
          [Ev_NewBlockBox 1, Ev_AddBlockElement 1 inline_block_element,
           Ev_AddBlockElement 2 (para 11), Ev_Close 3, Ev_OnLayout (para 11), Ev_Close 2,
           Ev_AddBlockElement 2 (para 11), Ev_Close 4, Ev_OnLayout (para 11), Ev_Close 2,
           Ev_CloseAbsoluteElements 2, Ev_OnLayout inline_block_element]
          [] [] [] [] 5"
      and inline_box = 5
      and c = "\<lparr> close_script = [], add_block_script = [], float_script = [],
                 table_script = [], fresh = 6 \<rparr>"
      and r = True
      and s' = "config
          [Ev_NewBlockBox 1, Ev_AddBlockElement 1 inline_block_element,
           Ev_AddBlockElement 2 (para 11), Ev_Close 3, Ev_OnLayout (para 11), Ev_Close 2,
           Ev_AddBlockElement 2 (para 11), Ev_Close 4, Ev_OnLayout (para 11), Ev_Close 2,
           Ev_CloseAbsoluteElements 2, Ev_OnLayout inline_block_element,
           Ev_AddInlineElement 0 inline_block_element, Ev_InlineClose 5]
          [] [] [] [] 6"]
  by (simp add: inline_block_element_def run_simps)

end
